theory Spec2Isabelle
  imports Main "HOL-Library.Word" "HOL-Library.Char_ord" "HOL-Library.List_Lexorder"
    "HOL-Library.AList"
begin

section \<open>JavaScript strings, bytes and the built-ins the signer calls\<close>

text \<open>
  A JavaScript string is modelled as a \<^typ>\<open>string\<close>: a list of code units, each below 256
  (the Latin-1 range). Raw binary data (a Node \<^verbatim>\<open>Buffer\<close>, a CryptoJS \<^verbatim>\<open>WordArray\<close>) is a
  list of 8-bit words, so that text and raw bytes cannot be confused.
\<close>

type_synonym byte = "8 word"

definition digit_char :: "nat \<Rightarrow> char" where
  "digit_char n = char_of (48 + n)"

definition is_digit :: "char \<Rightarrow> bool" where
  "is_digit c = (48 \<le> (of_char c :: nat) \<and> (of_char c :: nat) \<le> 57)"

text \<open>\<^verbatim>\<open>String(n)\<close> for a non-negative integer: its decimal digits.\<close>

fun dec :: "nat \<Rightarrow> string" where
  "dec n = (if n < 10 then [digit_char n] else dec (n div 10) @ [digit_char (n mod 10)])"

declare dec.simps [simp del]

text \<open>\<^verbatim>\<open>s.padStart(k, '0')\<close>.\<close>

definition padStart0 :: "nat \<Rightarrow> string \<Rightarrow> string" where
  "padStart0 k s = replicate (k - length s) (CHR ''0'') @ s"

abbreviation LF :: string where
  "LF \<equiv> [CHR 0x0A]"

text \<open>\<^verbatim>\<open>xs.join(sep)\<close> on an array of strings.\<close>

fun join :: "string \<Rightarrow> string list \<Rightarrow> string" where
  "join sep [] = []"
| "join sep [x] = x"
| "join sep (x # y # ys) = x @ sep @ join sep (y # ys)"

text \<open>\<^verbatim>\<open>s.split(c)\<close> for a one-character separator: never returns the empty array.\<close>

fun split :: "char \<Rightarrow> string \<Rightarrow> string list" where
  "split c [] = [[]]"
| "split c (x # xs) =
     (if x = c then [] # split c xs
      else (case split c xs of [] \<Rightarrow> [[x]] | s # ss \<Rightarrow> (x # s) # ss))"

text \<open>
  \<^verbatim>\<open>toUpperCase\<close> and \<^verbatim>\<open>toLowerCase\<close>, the ECMAScript built-ins, on the code units below
  256. The upper-case form of \<^verbatim>\<open>a\<close> to \<^verbatim>\<open>z\<close>, of U+00E0 to U+00F6 and of U+00F8 to U+00FE
  is the code unit 32 below, and that of the sharp s, U+00DF, is the two letters
  \<^verbatim>\<open>SS\<close>. The lower-case form of \<^verbatim>\<open>A\<close> to \<^verbatim>\<open>Z\<close>, of U+00C0 to U+00D6 and of U+00D8 to
  U+00DE is the code unit 32 above. Every other code unit below 256 is its own
  lower-case form, and its own upper-case form with two exceptions: the upper-case
  forms of the micro sign, U+00B5, and of the y with diaeresis, U+00FF, are U+039C and
  U+0178, which are not strings of this model. \<^verbatim>\<open>upper_char\<close> leaves these two as they
  are, and \<^verbatim>\<open>upper_case_below_256\<close> says of a string that it contains neither, so that
  its upper-case form is the one given here.
\<close>

definition upper_char :: "char \<Rightarrow> string" where
  "upper_char c =
     (let n = (of_char c :: nat)
      in if 97 \<le> n \<and> n \<le> 122 then [char_of (n - 32)]
         else if n = 223 then ''SS''
         else if (224 \<le> n \<and> n \<le> 246) \<or> (248 \<le> n \<and> n \<le> 254) then [char_of (n - 32)]
         else [c])"

definition lower_char :: "char \<Rightarrow> char" where
  "lower_char c =
     (let n = (of_char c :: nat)
      in if (65 \<le> n \<and> n \<le> 90) \<or> (192 \<le> n \<and> n \<le> 214) \<or> (216 \<le> n \<and> n \<le> 222)
         then char_of (n + 32) else c)"

definition toUpperCase :: "string \<Rightarrow> string" where
  "toUpperCase s = concat (map upper_char s)"

definition toLowerCase :: "string \<Rightarrow> string" where
  "toLowerCase s = map lower_char s"


text \<open>
  \<^verbatim>\<open>toLocaleLowerCase\<close>, in the locale of the host. The locales differ in the lower-case
  forms of capital letters only (the capital I in Turkish, Azeri and Lithuanian), and
  the signer calls it on the keys of the merged headers, which are lower case already;
  it is taken in a locale without such a rule, where it is \<^verbatim>\<open>toLowerCase\<close>.
\<close>

definition toLocaleLowerCase :: "string \<Rightarrow> string" where
  "toLocaleLowerCase s = toLowerCase s"

text \<open>Hex encoding of raw bytes, lower case: \<^verbatim>\<open>buf.toString('hex')\<close>, \<^verbatim>\<open>CryptoJS.enc.Hex\<close>.\<close>

definition hex_digit :: "nat \<Rightarrow> char" where
  "hex_digit n = (if n < 10 then char_of (48 + n) else char_of (87 + n))"

definition hex :: "byte list \<Rightarrow> string" where
  "hex bs = concat (map (\<lambda>b. [hex_digit (unat b div 16), hex_digit (unat b mod 16)]) bs)"

text \<open>The UTF-8 encoding of a string, by which text becomes the input of a hash.\<close>

definition utf8_char :: "char \<Rightarrow> byte list" where
  "utf8_char c =
     (let n = (of_char c :: nat)
      in if n < 128 then [of_nat n] else [of_nat (192 + n div 64), of_nat (128 + n mod 64)])"

definition utf8 :: "string \<Rightarrow> byte list" where
  "utf8 s = concat (map utf8_char s)"

text \<open>
  \<^verbatim>\<open>encodeURIComponent\<close>, the ECMAScript built-in: the letters, the digits and
  \<^verbatim>\<open>- _ . ! ~ * ' ( )\<close> stay; every other character becomes the bytes of its UTF-8
  encoding, each written \<^verbatim>\<open>%XX\<close> with upper-case hex digits.
\<close>

definition is_alnum :: "char \<Rightarrow> bool" where
  "is_alnum c =
     (let n = (of_char c :: nat)
      in (48 \<le> n \<and> n \<le> 57) \<or> (65 \<le> n \<and> n \<le> 90) \<or> (97 \<le> n \<and> n \<le> 122))"

definition uriUnescaped :: "char \<Rightarrow> bool" where
  "uriUnescaped c = (is_alnum c \<or> c \<in> set ''-_.!~*'' \<or> c \<in> set [CHR 0x27, CHR ''('', CHR '')''])"

definition HEX_digit :: "nat \<Rightarrow> char" where
  "HEX_digit n = (if n < 10 then char_of (48 + n) else char_of (55 + n))"

definition percent :: "byte \<Rightarrow> string" where
  "percent b = [CHR ''%'', HEX_digit (unat b div 16), HEX_digit (unat b mod 16)]"

definition encode_char :: "char \<Rightarrow> string" where
  "encode_char c = (if uriUnescaped c then [c] else concat (map percent (utf8_char c)))"

definition encodeURIComponent :: "string \<Rightarrow> string" where
  "encodeURIComponent s = concat (map encode_char s)"

subsection \<open>Dates\<close>

text \<open>
  A valid \<^verbatim>\<open>Date\<close>, given by its UTC fields. \<^verbatim>\<open>toISOString\<close> is the ECMAScript
  built-in: \<^verbatim>\<open>YYYY-MM-DDTHH:mm:ss.sssZ\<close> for the years 0 to 9999, and the expanded
  form with a sign and six year digits for every other year.
\<close>

record jsdate =
  year :: int
  month :: nat
  day :: nat
  hours :: nat
  minutes :: nat
  seconds :: nat
  milliseconds :: nat

definition valid_date :: "jsdate \<Rightarrow> bool" where
  "valid_date d = (1 \<le> month d \<and> month d \<le> 12 \<and> 1 \<le> day d \<and> day d \<le> 31 \<and>
     hours d < 24 \<and> minutes d < 60 \<and> seconds d < 60 \<and> milliseconds d < 1000 \<and>
     \<bar>year d\<bar> \<le> 275760)"

definition iso_year :: "int \<Rightarrow> string" where
  "iso_year y =
     (if 0 \<le> y \<and> y \<le> 9999 then padStart0 4 (dec (nat y))
      else (if y < 0 then ''-'' else ''+'') @ padStart0 6 (dec (nat \<bar>y\<bar>)))"

definition toISOString :: "jsdate \<Rightarrow> string" where
  "toISOString d =
     iso_year (year d) @ ''-'' @ padStart0 2 (dec (month d)) @ ''-'' @ padStart0 2 (dec (day d)) @
     ''T'' @ padStart0 2 (dec (hours d)) @ '':'' @ padStart0 2 (dec (minutes d)) @ '':'' @
     padStart0 2 (dec (seconds d)) @ ''.'' @ padStart0 3 (dec (milliseconds d)) @ ''Z''"

text \<open>
  \<^verbatim>\<open>s.replace(/[:\-]|\.\d{3}/g, '')\<close>: scanning from the left, a colon or a hyphen is
  dropped, and so is a dot together with the three digits that follow it.
\<close>

fun replace_separators :: "string \<Rightarrow> string" where
  "replace_separators [] = []"
| "replace_separators (c # cs) =
     (if c = CHR '':'' \<or> c = CHR ''-'' then replace_separators cs
      else if c = CHR ''.'' \<and> 3 \<le> length cs \<and> list_all is_digit (take 3 cs)
        then replace_separators (drop 3 cs)
      else c # replace_separators cs)"

text \<open>Source: \<^verbatim>\<open>amzDate(date, short)\<close>; \<^verbatim>\<open>substr(0, n)\<close> is \<^const>\<open>take\<close>.\<close>

definition amzDate :: "jsdate \<Rightarrow> bool \<Rightarrow> string" where
  "amzDate date short =
     (let result = take 17 (replace_separators (toISOString date))
      in if short then take 8 result else result)"

section \<open>The data model\<close>

subsection \<open>Values and objects\<close>

text \<open>
  A header value is a string or \<^verbatim>\<open>null\<close> (the host of a URL that has none). An object is
  an association list in insertion order: \<^const>\<open>map_of\<close> reads a property (\<^const>\<open>None\<close> is
  \<^verbatim>\<open>undefined\<close>), \<^const>\<open>AList.update\<close> assigns one (in place, or appended when new),
  \<^const>\<open>AList.delete\<close> is \<^verbatim>\<open>delete\<close>, and \<^verbatim>\<open>Object.keys\<close> is \<^term>\<open>map fst\<close>.
\<close>

datatype jsval = Null | Str string

fun to_string :: "jsval \<Rightarrow> string" where
  "to_string Null = ''null''"
| "to_string (Str s) = s"

text \<open>The logical payload of a request (its \<^verbatim>\<open>data\<close>), with JavaScript's truthiness.\<close>

datatype json =
    JNull | JBool bool | JNum int | JString string
  | JArray "json list" | JObject "(string \<times> json) list"

fun truthy_json :: "json \<Rightarrow> bool" where
  "truthy_json JNull = False"
| "truthy_json (JBool b) = b"
| "truthy_json (JNum n) = (n \<noteq> 0)"
| "truthy_json (JString s) = (s \<noteq> [])"
| "truthy_json (JArray xs) = True"
| "truthy_json (JObject kvs) = True"

text \<open>
  \<^verbatim>\<open>extend(target, source)\<close> of the deep-extend package, on objects whose values are not
  objects themselves: every property of the source is assigned to the target, except
  one named \<^verbatim>\<open>__proto__\<close>. deep-extend reads that property as \<^verbatim>\<open>undefined\<close>, and
  the assignment \<^verbatim>\<open>target['__proto__'] = value\<close> on a target that inherits from
  \<^verbatim>\<open>Object.prototype\<close>, as every target of the signer does, calls the setter
  of \<^verbatim>\<open>Object.prototype\<close> and creates no property.
\<close>

definition extend_obj :: "(string \<times> 'v) list \<Rightarrow> (string \<times> 'v) list \<Rightarrow> (string \<times> 'v) list" where
  "extend_obj target source =
     foldl (\<lambda>t (k, v). if k = ''__proto__'' then t else AList.update k v t) target source"

datatype error = TypeError | Error string

subsection \<open>The platform\<close>

text \<open>
  What the modules \<^verbatim>\<open>url\<close> and \<^verbatim>\<open>crypto\<close> (or CryptoJS) and the clock provide. Node's
  \<^verbatim>\<open>url.parse(urlString)\<close>, called with one argument, determines a host, a pathname and the
  query string after the first \<^verbatim>\<open>?\<close>, each of them possibly absent. The SHA-256 digest and
  HMAC-SHA256 (key first, then message) map raw bytes to raw bytes.
\<close>

record url_components =
  url_host :: "string option"
  url_pathname :: "string option"
  url_query :: "string option"

record platform =
  url_parse :: "string \<Rightarrow> url_components"
  sha256_digest :: "byte list \<Rightarrow> byte list"
  hmac_sha256 :: "byte list \<Rightarrow> byte list \<Rightarrow> byte list"
  json_stringify :: "json \<Rightarrow> string"
  now :: jsdate

text \<open>A string or raw bytes, as a key or a message; a string counts as its UTF-8 bytes.\<close>

datatype bin = Text string | Raw "byte list"

fun to_bytes :: "bin \<Rightarrow> byte list" where
  "to_bytes (Text s) = utf8 s"
| "to_bytes (Raw bs) = bs"

subsection \<open>The URL object\<close>

text \<open>
  The object that \<^verbatim>\<open>url.parse\<close> returns, as far as the signer reads it. Its \<^verbatim>\<open>path\<close> is
  the concatenation of the pathname and the search component (the query string with its
  question mark), and absent when both are; its \<^verbatim>\<open>query\<close> is the query string itself, a
  string, since \<^verbatim>\<open>parseQueryString\<close> is not set. \<^verbatim>\<open>sign\<close> replaces a missing or empty
  query by an empty object, so the query of a working set is a string or an object.
\<close>

datatype query = QueryString string | QueryObject "(string \<times> string) list"

record uri =
  host :: jsval
  path :: "string option"
  query :: query

definition url_path :: "url_components \<Rightarrow> string option" where
  "url_path u =
     (case (url_pathname u, url_query u) of
        (None, None) \<Rightarrow> None
      | (p, q) \<Rightarrow> Some ((case p of None \<Rightarrow> [] | Some p' \<Rightarrow> p') @
                        (case q of None \<Rightarrow> [] | Some q' \<Rightarrow> ''?'' @ q')))"

subsection \<open>Configuration and signer\<close>

record hash_options =
  hexOutput :: "bool option"
  textInput :: "bool option"

text \<open>
  A hasher: \<^verbatim>\<open>hash(input)\<close> and, in the CryptoJS variant, \<^verbatim>\<open>hmac(key, input, options)\<close>.
  The default hasher of \<^verbatim>\<open>aws-sign-web.js\<close> has no \<^verbatim>\<open>hmac\<close> property.
\<close>

record hasher =
  hash :: "string \<Rightarrow> string"
  hmac_of :: "(bin \<Rightarrow> bin \<Rightarrow> hash_options \<Rightarrow> bin) option"

text \<open>The caller's configuration object: \<^const>\<open>None\<close> is a property that is not there.\<close>

record config_input =
  cfg_accessKeyId :: "string option"
  cfg_secretAccessKey :: "string option"
  cfg_sessionToken :: "string option"
  cfg_region :: "string option"
  cfg_service :: "string option"
  cfg_defaultContentType :: "string option"
  cfg_defaultAcceptType :: "string option"
  cfg_defaultExpectType :: "string option"
  cfg_payloadSerializer :: "(json \<Rightarrow> string) option"
  cfg_payloadSerializerFactory :: "(unit \<Rightarrow> (json \<Rightarrow> string) option) option"
  cfg_hasherFactory :: "(unit \<Rightarrow> hasher) option"

text \<open>\<^verbatim>\<open>this.config\<close>: the defaults extended by the caller's configuration.\<close>

record config =
  accessKeyId :: "string option"
  secretAccessKey :: "string option"
  sessionToken :: "string option"
  region :: string
  service :: string
  defaultContentType :: string
  defaultAcceptType :: string
  defaultExpectType :: string
  payloadSerializer :: "(json \<Rightarrow> string) option"
  payloadSerializerFactory :: "unit \<Rightarrow> (json \<Rightarrow> string) option"
  hasherFactory :: "unit \<Rightarrow> hasher"

record signer =
  self_config :: config
  self_payloadSerializer :: "(json \<Rightarrow> string) option"
  self_hasher :: hasher

subsection \<open>Request, working set and result\<close>

record request =
  req_method :: "string option"
  url :: string
  headers :: "(string \<times> jsval) list option"
  params :: "(string \<times> string) list option"
  body :: "string option"
  data :: "json option"

text \<open>
  The working set. A field that the pipeline assigns later starts as the empty string
  (in the source it is \<^verbatim>\<open>undefined\<close> until assigned, and assigned before it is read).
\<close>

record working_set =
  ws_request :: request
  signDate :: jsdate
  ws_uri :: uri
  payload :: "string option"
  sortedHeaderKeys :: "string list"
  signedHeaders :: string
  canonicalRequest :: string
  credentialScope :: string
  stringToSign :: string
  signature :: string
  authorization :: string

text \<open>The object that \<^verbatim>\<open>sign\<close> returns; \<^const>\<open>None\<close> is \<^verbatim>\<open>undefined\<close>.\<close>

record signed_headers =
  out_accept :: "jsval option"
  out_expect :: "jsval option"
  out_authorization :: string
  out_content_type :: "jsval option"
  out_content_length :: "jsval option"
  out_x_amz_date :: "jsval option"
  out_x_amz_security_token :: "string option"

section \<open>The signer of \<^verbatim>\<open>aws-sign-web.js\<close>\<close>

text \<open>A string-valued property in a concatenation or a truth test.\<close>

fun string_of :: "string option \<Rightarrow> string" where
  "string_of None = ''undefined''"
| "string_of (Some s) = s"

fun truthy_string :: "string option \<Rightarrow> bool" where
  "truthy_string None = False"
| "truthy_string (Some s) = (s \<noteq> [])"

definition hmac :: "platform \<Rightarrow> bin \<Rightarrow> string \<Rightarrow> byte list" where
  "hmac P key input = hmac_sha256 P (to_bytes key) (utf8 input)"

definition sha256 :: "platform \<Rightarrow> string \<Rightarrow> string" where
  "sha256 P input = hex (sha256_digest P (utf8 input))"

definition defaultConfig :: "platform \<Rightarrow> config" where
  "defaultConfig P =
     \<lparr>accessKeyId = None, secretAccessKey = None, sessionToken = None,
      region = ''eu-west-1'',
      service = ''execute-api'',
      defaultContentType = ''application/json'',
      defaultAcceptType = ''application/json'',
      defaultExpectType = ''100-continue'',
      payloadSerializer = None,
      payloadSerializerFactory = (\<lambda>_. Some (json_stringify P)),
      hasherFactory = (\<lambda>_. \<lparr>hash = sha256 P, hmac_of = None\<rparr>)\<rparr>"

text \<open>\<^verbatim>\<open>extend({}, defaultConfig, config)\<close>: a property of the caller's object wins.\<close>

definition pick :: "'a option \<Rightarrow> 'a \<Rightarrow> 'a" where
  "pick given dflt = (case given of Some v \<Rightarrow> v | None \<Rightarrow> dflt)"

definition extend_config :: "config \<Rightarrow> config_input \<Rightarrow> config" where
  "extend_config d c =
     \<lparr>accessKeyId = (case cfg_accessKeyId c of Some k \<Rightarrow> Some k | None \<Rightarrow> accessKeyId d),
      secretAccessKey =
        (case cfg_secretAccessKey c of Some k \<Rightarrow> Some k | None \<Rightarrow> secretAccessKey d),
      sessionToken = (case cfg_sessionToken c of Some k \<Rightarrow> Some k | None \<Rightarrow> sessionToken d),
      region = pick (cfg_region c) (region d),
      service = pick (cfg_service c) (service d),
      defaultContentType = pick (cfg_defaultContentType c) (defaultContentType d),
      defaultAcceptType = pick (cfg_defaultAcceptType c) (defaultAcceptType d),
      defaultExpectType = pick (cfg_defaultExpectType c) (defaultExpectType d),
      payloadSerializer =
        (case cfg_payloadSerializer c of Some f \<Rightarrow> Some f | None \<Rightarrow> payloadSerializer d),
      payloadSerializerFactory =
        pick (cfg_payloadSerializerFactory c) (payloadSerializerFactory d),
      hasherFactory = pick (cfg_hasherFactory c) (hasherFactory d)\<rparr>"

text \<open>\<^verbatim>\<open>assert(statement, msg)\<close>: throws unless the statement is truthy.\<close>

definition assert_truthy :: "string option \<Rightarrow> string \<Rightarrow> error + unit" where
  "assert_truthy statement msg = (if \<not> truthy_string statement then Inl (Error msg) else Inr ())"

definition AwsSigner :: "platform \<Rightarrow> config_input \<Rightarrow> error + signer" where
  "AwsSigner P cfg =
     (let c = extend_config (defaultConfig P) cfg
      in case assert_truthy (accessKeyId c) ''AwsSigner requires AWS AccessKeyID'' of
           Inl e \<Rightarrow> Inl e
         | Inr _ \<Rightarrow>
        (case assert_truthy (secretAccessKey c) ''AwsSigner requires AWS SecretAccessKey'' of
           Inl e \<Rightarrow> Inl e
         | Inr _ \<Rightarrow>
             Inr \<lparr>self_config = c,
                  self_payloadSerializer =
                    (case payloadSerializer c of
                       Some f \<Rightarrow> Some f
                     | None \<Rightarrow> payloadSerializerFactory c ()),
                  self_hasher = hasherFactory c ()\<rparr>))"

subsection \<open>prepare\<close>

text \<open>
  The caller's headers with lower-cased names: the \<^verbatim>\<open>reduce\<close> of \<^verbatim>\<open>prepare\<close>, which
  starts from the object \<^verbatim>\<open>{}\<close> and assigns \<^verbatim>\<open>normalized[key.toLowerCase()] = value\<close>
  for every key. The state of the object is a pair: whether it still inherits from
  \<^verbatim>\<open>Object.prototype\<close>, and its own properties. While it inherits, an assignment to
  \<^verbatim>\<open>__proto__\<close> calls the setter of \<^verbatim>\<open>Object.prototype\<close>: it creates no property, and
  the value \<^verbatim>\<open>null\<close> takes the prototype away (a string is ignored). Without the
  prototype, \<^verbatim>\<open>__proto__\<close> is a property like any other.
\<close>

definition assign_normalized ::
    "bool \<times> (string \<times> jsval) list \<Rightarrow> string \<Rightarrow> jsval \<Rightarrow> bool \<times> (string \<times> jsval) list" where
  "assign_normalized n k v =
     (if k = ''__proto__'' \<and> fst n then (v \<noteq> Null, snd n)
      else (fst n, AList.update k v (snd n)))"

definition reduce_normalized :: "(string \<times> jsval) list \<Rightarrow> bool \<times> (string \<times> jsval) list" where
  "reduce_normalized hs =
     foldl (\<lambda>n (key, v). assign_normalized n (toLowerCase key) v) (True, []) hs"

definition normalized :: "(string \<times> jsval) list \<Rightarrow> (string \<times> jsval) list" where
  "normalized hs = snd (reduce_normalized hs)"

text \<open>\<^verbatim>\<open>extend(ws.uri.query, ws.request.params)\<close>: a target that is a string is left alone.\<close>

fun extend_query :: "query \<Rightarrow> (string \<times> string) list \<Rightarrow> query" where
  "extend_query (QueryString s) ps = QueryString s"
| "extend_query (QueryObject q) ps = QueryObject (extend_obj q ps)"

definition strip_content_type :: "(string \<times> jsval) list \<Rightarrow> (string \<times> jsval) list" where
  "strip_content_type hs =
     (case map_of hs ''content-type'' of
        Some (Str ct) \<Rightarrow>
          if ct \<noteq> []
          then AList.update ''content-type''
                 (Str (case split (CHR '';'') ct of x # _ \<Rightarrow> x | [] \<Rightarrow> [])) hs
          else hs
      | _ \<Rightarrow> hs)"

definition base_headers :: "signer \<Rightarrow> working_set \<Rightarrow> (string \<times> jsval) list" where
  "base_headers self ws =
     [(''host'', host (ws_uri ws)),
      (''content-type'', Str (defaultContentType (self_config self))),
      (''accept'', Str (defaultAcceptType (self_config self))),
      (''expect'', Str (defaultExpectType (self_config self))),
      (''x-amz-date'', Str (amzDate (signDate ws) False))]"

text \<open>
  The payload and the base headers after the branch \<^verbatim>\<open>Payload or not?\<close>: without a
  payload, \<^verbatim>\<open>content-type\<close> is deleted from the base headers.
\<close>

definition payload_or_not ::
    "signer \<Rightarrow> working_set \<Rightarrow> string option \<times> (string \<times> jsval) list" where
  "payload_or_not self ws =
     (if truthy_string (body (ws_request ws))
        then (body (ws_request ws), base_headers self ws)
      else case (data (ws_request ws), self_payloadSerializer self) of
             (Some d, Some serializer) \<Rightarrow>
               if truthy_json d then (Some (serializer d), base_headers self ws)
               else (payload ws, AList.delete ''content-type'' (base_headers self ws))
           | _ \<Rightarrow> (payload ws, AList.delete ''content-type'' (base_headers self ws)))"

definition prepare :: "signer \<Rightarrow> working_set \<Rightarrow> error + working_set" where
  "prepare self ws =
     (case req_method (ws_request ws) of
        None \<Rightarrow> Inl TypeError
      | Some m \<Rightarrow>
         (let (payload1, headers1) = payload_or_not self ws;
              headers2 =
                extend_obj headers1
                  (normalized (case headers (ws_request ws) of None \<Rightarrow> [] | Some hs \<Rightarrow> hs));
              keys = sort (map fst headers2);
              headers3 = strip_content_type headers2;
              uri1 =
                (case params (ws_request ws) of
                   None \<Rightarrow> ws_uri ws
                 | Some ps \<Rightarrow> (ws_uri ws)\<lparr>query := extend_query (query (ws_uri ws)) ps\<rparr>)
          in Inr (ws\<lparr>ws_request := (ws_request ws)\<lparr>req_method := Some (toUpperCase m),
                                                     headers := Some headers3\<rparr>,
                     payload := payload1,
                     sortedHeaderKeys := keys,
                     ws_uri := uri1\<rparr>)))"

subsection \<open>buildCanonicalRequest\<close>

text \<open>The components of the canonical request, in the order of the source.\<close>

definition canonicalURI :: "string \<Rightarrow> string" where
  "canonicalURI p = join ''/'' (map encodeURIComponent (split (CHR ''/'') p))"

text \<open>
  The properties of the query: those of the object, or, for a string, one property per
  character, named by its index.
\<close>

fun query_entries :: "query \<Rightarrow> (string \<times> string) list" where
  "query_entries (QueryString s) = zip (map dec [0..<length s]) (map (\<lambda>c. [c]) s)"
| "query_entries (QueryObject q) = q"

definition canonicalQueryString :: "query \<Rightarrow> string" where
  "canonicalQueryString q =
     join ''&''
       (map (\<lambda>key. encodeURIComponent key @ ''='' @
                    encodeURIComponent (string_of (map_of (query_entries q) key)))
            (sort (map fst (query_entries q))))"

definition header_value :: "(string \<times> jsval) list \<Rightarrow> string \<Rightarrow> string" where
  "header_value hs key = (case map_of hs key of None \<Rightarrow> ''undefined'' | Some v \<Rightarrow> to_string v)"

definition headerLines :: "(string \<times> jsval) list \<Rightarrow> string list \<Rightarrow> string list" where
  "headerLines hs keys = map (\<lambda>key. toLocaleLowerCase key @ '':'' @ header_value hs key) keys"

text \<open>
  The last component. \<^verbatim>\<open>the_hasher\<close> is the \<^verbatim>\<open>hasher\<close> property of the object the source
  reads the hasher from, \<^const>\<open>None\<close> when that object has no such property; calling
  \<^verbatim>\<open>hash\<close> on \<^verbatim>\<open>undefined\<close> throws.
\<close>

definition payloadHash ::
    "hasher option \<Rightarrow> (string \<times> jsval) list \<Rightarrow> string option \<Rightarrow> error + string" where
  "payloadHash the_hasher hs pl =
     (if map_of hs ''x-amz-content-sha256'' = Some (Str ''UNSIGNED-PAYLOAD'')
      then Inr ''UNSIGNED-PAYLOAD''
      else case the_hasher of
             None \<Rightarrow> Inl TypeError
           | Some h \<Rightarrow> Inr (hash h (if truthy_string pl then string_of pl else [])))"

text \<open>
  \<^verbatim>\<open>buildCanonicalRequest(self, ws)\<close> of \<^verbatim>\<open>aws-sign-web.js\<close>. The source reads the hasher
  as \<^verbatim>\<open>this.hasher\<close>; \<^verbatim>\<open>this_hasher\<close> is that property of the function's \<^verbatim>\<open>this\<close>.
\<close>

definition buildCanonicalRequest ::
    "hasher option \<Rightarrow> signer \<Rightarrow> working_set \<Rightarrow> error + working_set" where
  "buildCanonicalRequest this_hasher self ws =
     (let signed = join '';'' (map toLowerCase (sortedHeaderKeys ws))
      in case (req_method (ws_request ws), path (ws_uri ws), headers (ws_request ws)) of
           (Some m, Some p, Some hs) \<Rightarrow>
             (case payloadHash this_hasher hs (payload ws) of
                Inl e \<Rightarrow> Inl e
              | Inr ph \<Rightarrow>
                  Inr (ws\<lparr>signedHeaders := signed,
                          canonicalRequest :=
                            join LF
                              [toUpperCase m,
                               canonicalURI p,
                               canonicalQueryString (query (ws_uri ws)),
                               join LF (headerLines hs (sortedHeaderKeys ws)) @ LF,
                               signed,
                               ph]\<rparr>))
         | _ \<Rightarrow> Inl TypeError)"

subsection \<open>buildStringToSign, calculateSignature, buildSignatureHeader\<close>

definition buildStringToSign :: "signer \<Rightarrow> working_set \<Rightarrow> working_set" where
  "buildStringToSign self ws =
     (let scope =
            join ''/''
              [amzDate (signDate ws) True,
               region (self_config self),
               service (self_config self),
               ''aws4_request'']
      in ws\<lparr>credentialScope := scope,
            stringToSign :=
              join LF
                [''AWS4-HMAC-SHA256'',
                 amzDate (signDate ws) False,
                 scope,
                 hash (self_hasher self) (canonicalRequest ws)]\<rparr>)"

definition calculateSignature :: "platform \<Rightarrow> signer \<Rightarrow> working_set \<Rightarrow> working_set" where
  "calculateSignature P self ws =
     (let signKey =
            hmac P
              (Raw (hmac P
                (Raw (hmac P
                  (Raw (hmac P
                    (Text (''AWS4'' @ string_of (secretAccessKey (self_config self))))
                    (amzDate (signDate ws) True)))
                  (region (self_config self))))
                (service (self_config self))))
              ''aws4_request''
      in ws\<lparr>signature := hex (hmac P (Raw signKey) (stringToSign ws))\<rparr>)"

definition buildSignatureHeader :: "signer \<Rightarrow> working_set \<Rightarrow> working_set" where
  "buildSignatureHeader self ws =
     ws\<lparr>authorization :=
          ''AWS4-HMAC-SHA256 '' @
          ''Credential='' @ string_of (accessKeyId (self_config self)) @ ''/'' @
            credentialScope ws @ '', '' @
          ''SignedHeaders='' @ signedHeaders ws @ '', '' @
          ''Signature='' @ signature ws\<rparr>"

subsection \<open>sign\<close>

definition parseUrl :: "platform \<Rightarrow> string \<Rightarrow> uri" where
  "parseUrl P u =
     (let c = url_parse P u
      in \<lparr>host = (case url_host c of None \<Rightarrow> Null | Some h \<Rightarrow> Str h),
          path = url_path c,
          query = (if truthy_string (url_query c) then QueryString (string_of (url_query c))
                   else QueryObject [])\<rparr>)"

definition new_working_set :: "request \<Rightarrow> jsdate \<Rightarrow> uri \<Rightarrow> working_set" where
  "new_working_set r d u =
     \<lparr>ws_request = r, signDate = d, ws_uri = u, payload = None, sortedHeaderKeys = [],
      signedHeaders = [], canonicalRequest = [], credentialScope = [], stringToSign = [],
      signature = [], authorization = []\<rparr>"

definition result_headers :: "signer \<Rightarrow> working_set \<Rightarrow> signed_headers" where
  "result_headers self ws =
     (let hs = (case headers (ws_request ws) of None \<Rightarrow> [] | Some hs \<Rightarrow> hs)
      in \<lparr>out_accept = map_of hs ''accept'',
          out_expect = map_of hs ''expect'',
          out_authorization = authorization ws,
          out_content_type = map_of hs ''content-type'',
          out_content_length = map_of hs ''content-length'',
          out_x_amz_date = map_of hs ''x-amz-date'',
          out_x_amz_security_token =
            (if truthy_string (sessionToken (self_config self))
             then sessionToken (self_config self) else None)\<rparr>)"

text \<open>
  \<^verbatim>\<open>sign(request, signDate)\<close>. The working set holds a deep copy of the request, and the
  current time when no date is given. Passing values, the copy is the request itself;
  deep-extend does not copy a property named \<^verbatim>\<open>__proto__\<close>, which the merges of
  \<^verbatim>\<open>prepare\<close> drop from the headers and the parameters as well, and the logical payload
  is taken to have none. The stages are called as plain functions, so the
  \<^verbatim>\<open>this\<close> of \<^verbatim>\<open>buildCanonicalRequest\<close> is not the signer: it is the global object (or
  \<^verbatim>\<open>undefined\<close> in strict mode), which has no \<^verbatim>\<open>hasher\<close>.
\<close>

definition sign :: "platform \<Rightarrow> signer \<Rightarrow> request \<Rightarrow> jsdate option \<Rightarrow> error + signed_headers" where
  "sign P self req date =
     (let workingSet =
            new_working_set req (case date of Some d \<Rightarrow> d | None \<Rightarrow> now P) (parseUrl P (url req))
      in case prepare self workingSet of
           Inl e \<Rightarrow> Inl e
         | Inr ws1 \<Rightarrow>
            (case buildCanonicalRequest None self ws1 of
               Inl e \<Rightarrow> Inl e
             | Inr ws2 \<Rightarrow>
                 Inr (result_headers self
                        (buildSignatureHeader self
                          (calculateSignature P self
                            (buildStringToSign self ws2))))))"

section \<open>The signer of the CryptoJS variant\<close>

text \<open>
  The second source file is the same signer on CryptoJS. \<^verbatim>\<open>prepare\<close>,
  \<^verbatim>\<open>buildSignatureHeader\<close> and \<^verbatim>\<open>amzDate\<close> are the same text in both files; the
  functions that differ carry the suffix \<^verbatim>\<open>_web\<close>.
\<close>

definition JsonPayloadSerializer :: "platform \<Rightarrow> unit \<Rightarrow> (json \<Rightarrow> string) option" where
  "JsonPayloadSerializer P = (\<lambda>_. Some (\<lambda>data. json_stringify P data))"

text \<open>
  \<^verbatim>\<open>CryptoJSHasher()\<close>. Both functions extend the options
  \<^verbatim>\<open>{hexOutput: true, textInput: true}\<close> by the caller's; the signer calls \<^verbatim>\<open>hash\<close>
  without options, so it returns the hex string. \<^verbatim>\<open>CryptoJS.HmacSHA256(input, key)\<close> takes
  a string as its UTF-8 bytes and a \<^verbatim>\<open>WordArray\<close> as it is.
\<close>

definition CryptoJSHasher :: "platform \<Rightarrow> unit \<Rightarrow> hasher" where
  "CryptoJSHasher P =
     (\<lambda>_. \<lparr>hash = (\<lambda>input. hex (sha256_digest P (utf8 input))),
           hmac_of =
             Some (\<lambda>key input options.
               let h = hmac_sha256 P (to_bytes key) (to_bytes input)
               in if pick (hexOutput options) True then Text (hex h) else Raw h)\<rparr>)"

definition defaultConfig_web :: "platform \<Rightarrow> config" where
  "defaultConfig_web P =
     \<lparr>accessKeyId = None, secretAccessKey = None, sessionToken = None,
      region = ''eu-west-1'',
      service = ''execute-api'',
      defaultContentType = ''application/json'',
      defaultAcceptType = ''application/json'',
      defaultExpectType = ''100-continue'',
      payloadSerializer = None,
      payloadSerializerFactory = JsonPayloadSerializer P,
      hasherFactory = CryptoJSHasher P\<rparr>"

definition assertRequired :: "string option \<Rightarrow> string \<Rightarrow> error + unit" where
  "assertRequired obj msg =
     (if obj = None \<or> \<not> truthy_string obj then Inl (Error msg) else Inr ())"

definition AwsSigner_web :: "platform \<Rightarrow> config_input \<Rightarrow> error + signer" where
  "AwsSigner_web P cfg =
     (let c = extend_config (defaultConfig_web P) cfg;
          self = \<lparr>self_config = c,
                  self_payloadSerializer =
                    (case payloadSerializer c of
                       Some f \<Rightarrow> Some f
                     | None \<Rightarrow> payloadSerializerFactory c ()),
                  self_hasher = hasherFactory c ()\<rparr>
      in case assertRequired (accessKeyId c) ''AwsSigner requires AWS AccessKeyID'' of
           Inl e \<Rightarrow> Inl e
         | Inr _ \<Rightarrow>
        (case assertRequired (secretAccessKey c) ''AwsSigner requires AWS SecretAccessKey'' of
           Inl e \<Rightarrow> Inl e
         | Inr _ \<Rightarrow> Inr self))"

definition buildCanonicalRequest_web :: "signer \<Rightarrow> working_set \<Rightarrow> error + working_set" where
  "buildCanonicalRequest_web self ws =
     (let signed = join '';'' (map toLowerCase (sortedHeaderKeys ws))
      in case (path (ws_uri ws), headers (ws_request ws)) of
           (Some p, Some hs) \<Rightarrow>
             (case payloadHash (Some (self_hasher self)) hs (payload ws) of
                Inl e \<Rightarrow> Inl e
              | Inr ph \<Rightarrow>
                  Inr (ws\<lparr>signedHeaders := signed,
                          canonicalRequest :=
                            toUpperCase (string_of (req_method (ws_request ws))) @ LF @
                            canonicalURI p @ LF @
                            canonicalQueryString (query (ws_uri ws)) @ LF @
                            join LF (headerLines hs (sortedHeaderKeys ws)) @ LF @ LF @
                            signed @ LF @
                            ph\<rparr>))
         | _ \<Rightarrow> Inl TypeError)"

definition buildStringToSign_web :: "signer \<Rightarrow> working_set \<Rightarrow> working_set" where
  "buildStringToSign_web self ws =
     (let scope =
            join ''/''
              [amzDate (signDate ws) True, region (self_config self), service (self_config self),
               ''aws4_request'']
      in ws\<lparr>credentialScope := scope,
            stringToSign :=
              ''AWS4-HMAC-SHA256'' @ LF @
              amzDate (signDate ws) False @ LF @
              scope @ LF @
              hash (self_hasher self) (canonicalRequest ws)\<rparr>)"

text \<open>A hash result inside a string concatenation: a \<^verbatim>\<open>WordArray\<close> prints as its hex digits.\<close>

fun bin_string :: "bin \<Rightarrow> string" where
  "bin_string (Text s) = s"
| "bin_string (Raw bs) = hex bs"

definition calculateSignature_web :: "signer \<Rightarrow> working_set \<Rightarrow> error + working_set" where
  "calculateSignature_web self ws =
     (case hmac_of (self_hasher self) of
        None \<Rightarrow> Inl TypeError
      | Some hmac' \<Rightarrow>
         (let signKey =
                hmac'
                  (hmac'
                    (hmac'
                      (hmac'
                        (Text (''AWS4'' @ string_of (secretAccessKey (self_config self))))
                        (Text (amzDate (signDate ws) True))
                        \<lparr>hexOutput = Some False, textInput = None\<rparr>)
                      (Text (region (self_config self)))
                      \<lparr>hexOutput = Some False, textInput = Some False\<rparr>)
                    (Text (service (self_config self)))
                    \<lparr>hexOutput = Some False, textInput = Some False\<rparr>)
                  (Text ''aws4_request'')
                  \<lparr>hexOutput = Some False, textInput = Some False\<rparr>
          in Inr (ws\<lparr>signature :=
                       bin_string (hmac' signKey (Text (stringToSign ws))
                                     \<lparr>hexOutput = None, textInput = Some False\<rparr>)\<rparr>)))"

definition sign_web ::
    "platform \<Rightarrow> signer \<Rightarrow> request \<Rightarrow> jsdate option \<Rightarrow> error + signed_headers" where
  "sign_web P self req date =
     (let workingSet =
            new_working_set req (case date of Some d \<Rightarrow> d | None \<Rightarrow> now P) (parseUrl P (url req))
      in case prepare self workingSet of
           Inl e \<Rightarrow> Inl e
         | Inr ws1 \<Rightarrow>
            (case buildCanonicalRequest_web self ws1 of
               Inl e \<Rightarrow> Inl e
             | Inr ws2 \<Rightarrow>
                (case calculateSignature_web self (buildStringToSign_web self ws2) of
                   Inl e \<Rightarrow> Inl e
                 | Inr ws4 \<Rightarrow> Inr (result_headers self (buildSignatureHeader self ws4)))))"

section \<open>The signer on a store of objects\<close>

text \<open>
  The definitions above pass values. JavaScript objects are shared and assigned in place,
  so what a call of \<^verbatim>\<open>sign\<close> does to the objects of its caller is a question about the
  store. Here the same functions are written once more, statement by statement, on a
  store: a list of objects, the address of an object being its index. A value is a
  primitive or a reference to an object; arrays of strings, dates, the logical payload
  and function values are taken as immutable values.
\<close>

type_synonym addr = nat

datatype val =
    VUndefined | VNull | VStr string | VJson json | VDate jsdate | VKeys "string list"
  | VSerializer "json \<Rightarrow> string" | VHasher hasher | Ref addr

type_synonym object = "(string \<times> val) list"

type_synonym heap = "object list"

text \<open>An action runs on the store and returns a value and the new store, or throws.\<close>

type_synonym 'a action = "heap \<Rightarrow> error + ('a \<times> heap)"

definition return :: "'a \<Rightarrow> 'a action" where
  "return x = (\<lambda>h. Inr (x, h))"

definition throw :: "error \<Rightarrow> 'a action" where
  "throw e = (\<lambda>h. Inl e)"

definition bind :: "'a action \<Rightarrow> ('a \<Rightarrow> 'b action) \<Rightarrow> 'b action" where
  "bind m f = (\<lambda>h. case m h of Inl e \<Rightarrow> Inl e | Inr (x, h') \<Rightarrow> f x h')"

definition seq :: "unit action \<Rightarrow> 'b action \<Rightarrow> 'b action" where
  "seq m k = bind m (\<lambda>_. k)"

text \<open>\<^verbatim>\<open>xs.forEach(f)\<close> and \<^verbatim>\<open>xs.map(f)\<close> for an \<^verbatim>\<open>f\<close> that reads or writes the store.\<close>

primrec forEach :: "('a \<Rightarrow> unit action) \<Rightarrow> 'a list \<Rightarrow> unit action" where
  "forEach f [] = return ()"
| "forEach f (x # xs) = seq (f x) (forEach f xs)"

primrec mapM :: "('a \<Rightarrow> 'b action) \<Rightarrow> 'a list \<Rightarrow> 'b list action" where
  "mapM f [] = return []"
| "mapM f (x # xs) = bind (f x) (\<lambda>y. bind (mapM f xs) (\<lambda>ys. return (y # ys)))"

text \<open>A new object: \<^verbatim>\<open>{...}\<close>.\<close>

definition alloc :: "object \<Rightarrow> val action" where
  "alloc obj = (\<lambda>h. Inr (Ref (length h), h @ [obj]))"

text \<open>The characters of a string, as its indexed properties.\<close>

definition string_entries :: "string \<Rightarrow> object" where
  "string_entries s = zip (map dec [0..<length s]) (map (\<lambda>c. VStr [c]) s)"

definition lookup :: "object \<Rightarrow> string \<Rightarrow> val" where
  "lookup obj k = (case map_of obj k of None \<Rightarrow> VUndefined | Some v \<Rightarrow> v)"

text \<open>
  \<^verbatim>\<open>v.k\<close> and \<^verbatim>\<open>v[k]\<close>: a property of an object, a character of a string,
  \<^verbatim>\<open>undefined\<close> on any other primitive, and a TypeError on \<^verbatim>\<open>undefined\<close> and \<^verbatim>\<open>null\<close>.
\<close>

definition get :: "val \<Rightarrow> string \<Rightarrow> val action" where
  "get v k =
     (\<lambda>h. case v of
        Ref a \<Rightarrow> if a < length h then Inr (lookup (h ! a) k, h) else Inl TypeError
      | VUndefined \<Rightarrow> Inl TypeError
      | VNull \<Rightarrow> Inl TypeError
      | VStr s \<Rightarrow> Inr (lookup (string_entries s) k, h)
      | _ \<Rightarrow> Inr (VUndefined, h))"

text \<open>\<^verbatim>\<open>v.k = x\<close>: assigns in place; on a primitive the assignment is without effect.\<close>

definition put :: "val \<Rightarrow> string \<Rightarrow> val \<Rightarrow> unit action" where
  "put v k x =
     (\<lambda>h. case v of
        Ref a \<Rightarrow>
          if a < length h then Inr ((), h[a := AList.update k x (h ! a)]) else Inl TypeError
      | VUndefined \<Rightarrow> Inl TypeError
      | VNull \<Rightarrow> Inl TypeError
      | _ \<Rightarrow> Inr ((), h))"

text \<open>\<^verbatim>\<open>delete v.k\<close>.\<close>

definition delete_property :: "val \<Rightarrow> string \<Rightarrow> unit action" where
  "delete_property v k =
     (\<lambda>h. case v of
        Ref a \<Rightarrow> if a < length h then Inr ((), h[a := AList.delete k (h ! a)]) else Inl TypeError
      | VUndefined \<Rightarrow> Inl TypeError
      | VNull \<Rightarrow> Inl TypeError
      | _ \<Rightarrow> Inr ((), h))"

text \<open>\<^verbatim>\<open>Object.keys(v)\<close>.\<close>

definition objectKeys :: "val \<Rightarrow> string list action" where
  "objectKeys v =
     (\<lambda>h. case v of
        Ref a \<Rightarrow> if a < length h then Inr (map fst (h ! a), h) else Inl TypeError
      | VUndefined \<Rightarrow> Inl TypeError
      | VNull \<Rightarrow> Inl TypeError
      | VStr s \<Rightarrow> Inr (map fst (string_entries s), h)
      | _ \<Rightarrow> Inr ([], h))"

fun is_ref :: "val \<Rightarrow> bool" where
  "is_ref (Ref a) = True"
| "is_ref _ = False"

text \<open>\<^verbatim>\<open>v === w\<close> for an object \<^verbatim>\<open>w\<close>, and \<^verbatim>\<open>v === s\<close> for a string literal.\<close>

fun same_object :: "val \<Rightarrow> val \<Rightarrow> bool" where
  "same_object (Ref a) (Ref b) = (a = b)"
| "same_object _ _ = False"

fun is_string :: "val \<Rightarrow> string \<Rightarrow> bool" where
  "is_string (VStr t) s = (t = s)"
| "is_string _ s = False"

text \<open>\<^verbatim>\<open>typeof v === 'object'\<close>.\<close>

fun typeof_object :: "val \<Rightarrow> bool" where
  "typeof_object (Ref a) = True"
| "typeof_object VNull = True"
| "typeof_object (VDate d) = True"
| "typeof_object (VKeys ks) = True"
| "typeof_object (VJson (JArray xs)) = True"
| "typeof_object (VJson (JObject kvs)) = True"
| "typeof_object (VJson JNull) = True"
| "typeof_object _ = False"

fun truthy_val :: "val \<Rightarrow> bool" where
  "truthy_val VUndefined = False"
| "truthy_val VNull = False"
| "truthy_val (VStr s) = (s \<noteq> [])"
| "truthy_val (VJson j) = truthy_json j"
| "truthy_val _ = True"

text \<open>A value inside a string concatenation.\<close>

fun to_str :: "val \<Rightarrow> string" where
  "to_str VUndefined = ''undefined''"
| "to_str VNull = ''null''"
| "to_str (VStr s) = s"
| "to_str (VKeys ks) = join '','' ks"
| "to_str _ = ''[object Object]''"

text \<open>
  \<^verbatim>\<open>safeGetProperty(object, property)\<close> of deep-extend: the property, but \<^verbatim>\<open>undefined\<close>
  for \<^verbatim>\<open>__proto__\<close>.
\<close>

definition safeGetProperty :: "val \<Rightarrow> string \<Rightarrow> val action" where
  "safeGetProperty object property =
     (if property = ''__proto__'' then return VUndefined else get object property)"

text \<open>
  \<^verbatim>\<open>target[key] = x\<close> for a key computed at run time, on a target that inherits from
  \<^verbatim>\<open>Object.prototype\<close>: the key \<^verbatim>\<open>__proto__\<close> calls the setter of
  \<^verbatim>\<open>Object.prototype\<close> and creates no property.
\<close>

definition assign :: "val \<Rightarrow> string \<Rightarrow> val \<Rightarrow> unit action" where
  "assign target key x =
     (if key = ''__proto__''
      then (case target of
              VUndefined \<Rightarrow> throw TypeError
            | VNull \<Rightarrow> throw TypeError
            | _ \<Rightarrow> return ())
      else put target key x)"

text \<open>
  \<^verbatim>\<open>extend(target, obj)\<close> of deep-extend. A target that is not an object is left alone,
  and so is a source that is not a plain object. A property of the source that is not a
  plain object is assigned; one that is a plain object is extended into the target's
  property of that name when that is an object, and into a new object otherwise. The
  targets are objects that deep-extend or the signer has created, which inherit from
  \<^verbatim>\<open>Object.prototype\<close>. The first argument bounds the depth of the recursion, which the
  call stack bounds in the source.
\<close>

primrec deepExtend :: "nat \<Rightarrow> val \<Rightarrow> val \<Rightarrow> unit action" where
  "deepExtend 0 = (\<lambda>target obj. throw (Error ''Maximum call stack size exceeded''))"
| "deepExtend (Suc n) = (\<lambda>target obj.
     if \<not> typeof_object target then return ()
     else if \<not> is_ref obj then return ()
     else bind (objectKeys obj) (forEach (\<lambda>key.
       bind (safeGetProperty target key) (\<lambda>src.
       bind (safeGetProperty obj key) (\<lambda>v.
         if same_object v target then return ()
         else if \<not> is_ref v then assign target key v
         else if is_ref src then seq (deepExtend n src v) (assign target key src)
         else bind (alloc []) (\<lambda>fresh.
                seq (deepExtend n fresh v) (assign target key fresh)))))))"

subsection \<open>The stages on the store\<close>

definition date_of :: "val \<Rightarrow> jsdate action" where
  "date_of v = (case v of VDate d \<Rightarrow> return d | _ \<Rightarrow> throw TypeError)"

definition string_method :: "val \<Rightarrow> string action" where
  "string_method v = (case v of VStr s \<Rightarrow> return s | _ \<Rightarrow> throw TypeError)"

fun is_null :: "val \<Rightarrow> bool" where
  "is_null VNull = True"
| "is_null (VJson JNull) = True"
| "is_null _ = False"

text \<open>
  The \<^verbatim>\<open>reduce\<close> of \<^verbatim>\<open>prepare\<close> over the keys of the request's headers \<^verbatim>\<open>rh\<close>, into the
  new object \<^verbatim>\<open>norm\<close>; \<^verbatim>\<open>inherits\<close> says whether \<^verbatim>\<open>norm\<close> still inherits from
  \<^verbatim>\<open>Object.prototype\<close>. While it does, an assignment to \<^verbatim>\<open>__proto__\<close> creates no
  property, and the value \<^verbatim>\<open>null\<close> takes the prototype away; any other object as the
  prototype inherits from \<^verbatim>\<open>Object.prototype\<close> itself.
\<close>

primrec reduce_normalized_h :: "string list \<Rightarrow> val \<Rightarrow> val \<Rightarrow> bool \<Rightarrow> unit action" where
  "reduce_normalized_h [] = (\<lambda>rh norm inherits. return ())"
| "reduce_normalized_h (key # keys) = (\<lambda>rh norm inherits.
     bind (get rh key) (\<lambda>v.
       if toLowerCase key = ''__proto__'' \<and> inherits
       then reduce_normalized_h keys rh norm (\<not> is_null v)
       else seq (put norm (toLowerCase key) v) (reduce_normalized_h keys rh norm inherits)))"

definition prepare_h :: "nat \<Rightarrow> val \<Rightarrow> val \<Rightarrow> unit action" where
  "prepare_h depth self ws =
     bind (get ws ''uri'') (\<lambda>uri.
     bind (get uri ''host'') (\<lambda>h.
     bind (get self ''config'') (\<lambda>config.
     bind (get config ''defaultContentType'') (\<lambda>contentType.
     bind (get config ''defaultAcceptType'') (\<lambda>acceptType.
     bind (get config ''defaultExpectType'') (\<lambda>expectType.
     bind (bind (get ws ''signDate'') date_of) (\<lambda>d.
     bind (alloc
            [(''host'', h),
             (''content-type'', contentType),
             (''accept'', acceptType),
             (''expect'', expectType),
             (''x-amz-date'', VStr (amzDate d False))]) (\<lambda>hdrs.
     bind (get ws ''request'') (\<lambda>r.
     bind (bind (get r ''method'') string_method) (\<lambda>m.
     seq (put r ''method'' (VStr (toUpperCase m)))
    (bind (get r ''body'') (\<lambda>b.
     bind (get r ''data'') (\<lambda>dt.
     bind (get self ''payloadSerializer'') (\<lambda>serializer.
     seq (if truthy_val b then put ws ''payload'' b
          else case (dt, serializer) of
                 (VJson j, VSerializer f) \<Rightarrow>
                   if truthy_json j then put ws ''payload'' (VStr (f j))
                   else delete_property hdrs ''content-type''
               | _ \<Rightarrow>
                   if truthy_val dt \<and> truthy_val serializer then throw TypeError
                   else delete_property hdrs ''content-type'')
    (bind (get r ''headers'') (\<lambda>rh.
     bind (alloc []) (\<lambda>norm.
     seq (if truthy_val rh
          then bind (objectKeys rh) (\<lambda>ks. reduce_normalized_h ks rh norm True)
          else return ())
    (seq (deepExtend depth hdrs norm)
    (seq (put r ''headers'' hdrs)
    (bind (objectKeys hdrs) (\<lambda>ks.
     seq (put ws ''sortedHeaderKeys'' (VKeys (sort ks)))
    (bind (get hdrs ''content-type'') (\<lambda>ct.
     seq (if truthy_val ct
          then bind (string_method ct) (\<lambda>s.
                 put hdrs ''content-type''
                   (VStr (case split (CHR '';'') s of x # _ \<Rightarrow> x | [] \<Rightarrow> [])))
          else return ())
    (bind (get r ''params'') (\<lambda>ps.
     if typeof_object ps
     then bind (get uri ''query'') (\<lambda>q. deepExtend depth q ps)
     else return ())))))))))))))))))))))))))"

text \<open>
  \<^verbatim>\<open>buildCanonicalRequest\<close>; \<^verbatim>\<open>this_hasher\<close> is the value of \<^verbatim>\<open>this.hasher\<close>, and
  \<^verbatim>\<open>web\<close> selects the text of the CryptoJS variant, which converts the method by
  \<^verbatim>\<open>String\<close>.
\<close>

definition payloadHash_h :: "val \<Rightarrow> val \<Rightarrow> val \<Rightarrow> string action" where
  "payloadHash_h the_hasher hdrs ws =
     bind (get hdrs ''x-amz-content-sha256'') (\<lambda>x.
     if is_string x ''UNSIGNED-PAYLOAD'' then return ''UNSIGNED-PAYLOAD''
     else case the_hasher of
            VHasher hh \<Rightarrow>
              bind (get ws ''payload'') (\<lambda>pl.
                return (hash hh (if truthy_val pl then to_str pl else [])))
          | _ \<Rightarrow> throw TypeError)"

definition buildCanonicalRequest_h :: "bool \<Rightarrow> val \<Rightarrow> val \<Rightarrow> val \<Rightarrow> unit action" where
  "buildCanonicalRequest_h web this_hasher self ws =
     bind (get ws ''sortedHeaderKeys'') (\<lambda>sk.
     bind (case sk of VKeys ks \<Rightarrow> return ks | _ \<Rightarrow> throw TypeError) (\<lambda>ks.
     seq (put ws ''signedHeaders'' (VStr (join '';'' (map toLowerCase ks))))
    (bind (get ws ''request'') (\<lambda>r.
     bind (get r ''method'') (\<lambda>m.
     bind (if web then return (to_str m) else string_method m) (\<lambda>ms.
     bind (get ws ''uri'') (\<lambda>uri.
     bind (bind (get uri ''path'') string_method) (\<lambda>p.
     bind (get uri ''query'') (\<lambda>q.
     bind (objectKeys q) (\<lambda>qks.
     bind (mapM (\<lambda>key. bind (get q key) (\<lambda>v.
             return (encodeURIComponent key @ ''='' @ encodeURIComponent (to_str v))))
            (sort qks)) (\<lambda>pairs.
     bind (get r ''headers'') (\<lambda>hdrs.
     bind (mapM (\<lambda>key. bind (get hdrs key) (\<lambda>v.
             return (toLocaleLowerCase key @ '':'' @ to_str v))) ks) (\<lambda>lines.
     bind (get ws ''signedHeaders'') (\<lambda>signed.
     bind (payloadHash_h this_hasher hdrs ws) (\<lambda>ph.
     put ws ''canonicalRequest''
       (VStr (join LF
          [toUpperCase ms,
           canonicalURI p,
           join ''&'' pairs,
           join LF lines @ LF,
           to_str signed,
           ph])))))))))))))))))"

definition buildStringToSign_h :: "val \<Rightarrow> val \<Rightarrow> unit action" where
  "buildStringToSign_h self ws =
     bind (bind (get ws ''signDate'') date_of) (\<lambda>d.
     bind (get self ''config'') (\<lambda>config.
     bind (get config ''region'') (\<lambda>rg.
     bind (get config ''service'') (\<lambda>sv.
     seq (put ws ''credentialScope''
            (VStr (join ''/'' [amzDate d True, to_str rg, to_str sv, ''aws4_request''])))
    (bind (get ws ''credentialScope'') (\<lambda>scope.
     bind (get self ''hasher'') (\<lambda>hv.
     bind (get ws ''canonicalRequest'') (\<lambda>cr.
     case hv of
       VHasher hh \<Rightarrow>
         put ws ''stringToSign''
           (VStr (join LF
              [''AWS4-HMAC-SHA256'', amzDate d False, to_str scope, hash hh (to_str cr)]))
     | _ \<Rightarrow> throw TypeError))))))))"

text \<open>\<^verbatim>\<open>calculateSignature\<close> of \<^verbatim>\<open>aws-sign-web.js\<close>, and that of the CryptoJS variant.\<close>

definition calculateSignature_h :: "platform \<Rightarrow> val \<Rightarrow> val \<Rightarrow> unit action" where
  "calculateSignature_h P self ws =
     bind (get self ''config'') (\<lambda>config.
     bind (get config ''secretAccessKey'') (\<lambda>secret.
     bind (bind (get ws ''signDate'') date_of) (\<lambda>d.
     bind (get config ''region'') (\<lambda>rg.
     bind (get config ''service'') (\<lambda>sv.
     bind (get ws ''stringToSign'') (\<lambda>sts.
     put ws ''signature''
       (VStr (hex (hmac P
          (Raw (hmac P
            (Raw (hmac P
              (Raw (hmac P
                (Raw (hmac P (Text (''AWS4'' @ to_str secret)) (amzDate d True)))
                (to_str rg)))
              (to_str sv)))
            ''aws4_request''))
          (to_str sts))))))))))"

definition calculateSignature_web_h :: "val \<Rightarrow> val \<Rightarrow> unit action" where
  "calculateSignature_web_h self ws =
     bind (get self ''hasher'') (\<lambda>hv.
     bind (case hv of
             VHasher hh \<Rightarrow> (case hmac_of hh of Some f \<Rightarrow> return f | None \<Rightarrow> throw TypeError)
           | _ \<Rightarrow> throw TypeError) (\<lambda>hmac'.
     bind (get self ''config'') (\<lambda>config.
     bind (get config ''secretAccessKey'') (\<lambda>secret.
     bind (bind (get ws ''signDate'') date_of) (\<lambda>d.
     bind (get config ''region'') (\<lambda>rg.
     bind (get config ''service'') (\<lambda>sv.
     bind (get ws ''stringToSign'') (\<lambda>sts.
     put ws ''signature''
       (VStr (bin_string (hmac'
          (hmac'
            (hmac'
              (hmac'
                (hmac' (Text (''AWS4'' @ to_str secret)) (Text (amzDate d True))
                   \<lparr>hexOutput = Some False, textInput = None\<rparr>)
                (Text (to_str rg)) \<lparr>hexOutput = Some False, textInput = Some False\<rparr>)
              (Text (to_str sv)) \<lparr>hexOutput = Some False, textInput = Some False\<rparr>)
            (Text ''aws4_request'') \<lparr>hexOutput = Some False, textInput = Some False\<rparr>)
          (Text (to_str sts)) \<lparr>hexOutput = None, textInput = Some False\<rparr>)))))))))))"

definition buildSignatureHeader_h :: "val \<Rightarrow> val \<Rightarrow> unit action" where
  "buildSignatureHeader_h self ws =
     bind (get self ''config'') (\<lambda>config.
     bind (get config ''accessKeyId'') (\<lambda>keyId.
     bind (get ws ''credentialScope'') (\<lambda>scope.
     bind (get ws ''signedHeaders'') (\<lambda>signed.
     bind (get ws ''signature'') (\<lambda>sg.
     put ws ''authorization''
       (VStr (''AWS4-HMAC-SHA256 '' @
              ''Credential='' @ to_str keyId @ ''/'' @ to_str scope @ '', '' @
              ''SignedHeaders='' @ to_str signed @ '', '' @
              ''Signature='' @ to_str sg)))))))"

text \<open>
  \<^verbatim>\<open>sign(request, signDate)\<close> on the store: \<^verbatim>\<open>this\<close> and \<^verbatim>\<open>request\<close> are the caller's
  objects. \<^verbatim>\<open>depth\<close> is the depth of the call stack left for deep-extend, and \<^verbatim>\<open>web\<close>
  selects the CryptoJS variant. The result is the reference of the returned object.
\<close>

definition sign_h ::
    "platform \<Rightarrow> nat \<Rightarrow> bool \<Rightarrow> val \<Rightarrow> val \<Rightarrow> jsdate option \<Rightarrow> val action" where
  "sign_h P depth web this request date =
     bind (bind (get request ''url'') string_method) (\<lambda>u.
     bind (alloc
            [(''host'', case url_host (url_parse P u) of None \<Rightarrow> VNull | Some hst \<Rightarrow> VStr hst),
             (''path'', case url_path (url_parse P u) of None \<Rightarrow> VUndefined | Some p \<Rightarrow> VStr p),
             (''query'', case url_query (url_parse P u) of None \<Rightarrow> VNull | Some q \<Rightarrow> VStr q)])
       (\<lambda>uri.
     bind (get uri ''query'') (\<lambda>q.
     seq (if \<not> truthy_val q then bind (alloc []) (put uri ''query'') else return ())
    (bind (alloc []) (\<lambda>copy.
     seq (deepExtend depth copy request)
    (bind (alloc
            [(''request'', copy),
             (''signDate'', VDate (case date of Some d \<Rightarrow> d | None \<Rightarrow> now P)),
             (''uri'', uri)]) (\<lambda>workingSet.
     seq (prepare_h depth this workingSet)
    (bind (if web then get this ''hasher'' else return VUndefined) (\<lambda>this_hasher.
     seq (buildCanonicalRequest_h web this_hasher this workingSet)
    (seq (buildStringToSign_h this workingSet)
    (seq (if web then calculateSignature_web_h this workingSet
          else calculateSignature_h P this workingSet)
    (seq (buildSignatureHeader_h this workingSet)
    (bind (get workingSet ''request'') (\<lambda>r.
     bind (get r ''headers'') (\<lambda>hdrs.
     bind (get hdrs ''accept'') (\<lambda>accept.
     bind (get hdrs ''expect'') (\<lambda>expect.
     bind (get workingSet ''authorization'') (\<lambda>auth.
     bind (get hdrs ''content-type'') (\<lambda>contentType.
     bind (get hdrs ''content-length'') (\<lambda>contentLength.
     bind (get hdrs ''x-amz-date'') (\<lambda>amz.
     bind (get this ''config'') (\<lambda>config.
     bind (get config ''sessionToken'') (\<lambda>token.
     alloc
       [(''accept'', accept),
        (''expect'', expect),
        (''authorization'', auth),
        (''content-type'', contentType),
        (''content-length'', contentLength),
        (''x-amz-date'', amz),
        (''x-amz-security-token'', if truthy_val token then token else VUndefined)]
     )))))))))))))))))))))))"

subsection \<open>Old and new objects\<close>

text \<open>
  The objects of the store \<^verbatim>\<open>old\<close> with which a call starts are the caller's. A value is
  new when it is not a reference to one of them. A later store extends \<^verbatim>\<open>old\<close> when the
  old objects are in it as they were and no new object refers to an old one. An action
  preserves \<^verbatim>\<open>old\<close> when, run on a store that extends it, it returns a store that
  extends it, and a value that satisfies the given condition.
\<close>

definition new_val :: "nat \<Rightarrow> val \<Rightarrow> bool" where
  "new_val n v = (case v of Ref a \<Rightarrow> n \<le> a | _ \<Rightarrow> True)"

definition extends :: "heap \<Rightarrow> heap \<Rightarrow> bool" where
  "extends old h =
     (take (length old) h = old \<and>
      (\<forall>a. length old \<le> a \<longrightarrow> a < length h \<longrightarrow>
         (\<forall>v \<in> snd ` set (h ! a). new_val (length old) v)))"

definition preserves :: "heap \<Rightarrow> 'a action \<Rightarrow> ('a \<Rightarrow> bool) \<Rightarrow> bool" where
  "preserves old m Q =
     (\<forall>h x h'. extends old h \<longrightarrow> m h = Inr (x, h') \<longrightarrow> extends old h' \<and> Q x)"

text \<open>
  The signer's objects: \<^verbatim>\<open>this\<close> is an object of the store whose \<^verbatim>\<open>config\<close> is an
  object of the store none of whose values is a reference: strings and the two
  factory functions, as the constructor leaves them.
\<close>

definition signer_object :: "heap \<Rightarrow> val \<Rightarrow> bool" where
  "signer_object h this =
     (case this of
        Ref t \<Rightarrow>
          t < length h \<and>
          (case lookup (h ! t) ''config'' of
             Ref c \<Rightarrow> c < length h \<and> list_all (\<lambda>(k, v). \<not> is_ref v) (h ! c)
           | _ \<Rightarrow> False)
      | _ \<Rightarrow> False)"

text \<open>The returned object of the store, read as the result of the value-passing \<^const>\<open>sign\<close>.\<close>

fun read_val :: "val \<Rightarrow> jsval option" where
  "read_val VNull = Some Null"
| "read_val (VStr s) = Some (Str s)"
| "read_val _ = None"

definition read_result :: "heap \<Rightarrow> val \<Rightarrow> signed_headers" where
  "read_result h out =
     (let obj = (case out of Ref a \<Rightarrow> h ! a | _ \<Rightarrow> [])
      in \<lparr>out_accept = read_val (lookup obj ''accept''),
          out_expect = read_val (lookup obj ''expect''),
          out_authorization = to_str (lookup obj ''authorization''),
          out_content_type = read_val (lookup obj ''content-type''),
          out_content_length = read_val (lookup obj ''content-length''),
          out_x_amz_date = read_val (lookup obj ''x-amz-date''),
          out_x_amz_security_token =
            (case lookup obj ''x-amz-security-token'' of VStr s \<Rightarrow> Some s | _ \<Rightarrow> None)\<rparr>)"

section \<open>Notions of the specification\<close>

text \<open>
  The form \<^verbatim>\<open>YYYYMMDDTHHMMSSZ\<close> of the long date, as the specification words it: sixteen
  characters, eight digits, a \<^verbatim>\<open>T\<close>, six digits and a \<^verbatim>\<open>Z\<close>.
\<close>

definition is_amz_long :: "string \<Rightarrow> bool" where
  "is_amz_long s =
     (length s = 16 \<and> list_all is_digit (take 8 s) \<and> s ! 8 = CHR ''T'' \<and>
      list_all is_digit (take 6 (drop 9 s)) \<and> s ! 15 = CHR ''Z'')"

text \<open>
  The canonical URI as the specification words it: every segment of the path encoded by
  the unreserved-character rule of RFC 3986, under which only the letters, the digits
  and \<^verbatim>\<open>- . _ ~\<close> stay.
\<close>

definition rfc3986_unreserved :: "char \<Rightarrow> bool" where
  "rfc3986_unreserved c = (is_alnum c \<or> c \<in> set ''-._~'')"

definition rfc3986_encode :: "string \<Rightarrow> string" where
  "rfc3986_encode s =
     concat (map (\<lambda>c. if rfc3986_unreserved c then [c] else concat (map percent (utf8_char c))) s)"

definition canonicalURI_spec :: "string \<Rightarrow> string" where
  "canonicalURI_spec p = join ''/'' (map rfc3986_encode (split (CHR ''/'') p))"

section \<open>Concrete inputs\<close>

text \<open>
  A platform to evaluate the signer on: the results of \<^verbatim>\<open>url.parse\<close> for three URLs, and
  stand-ins for the two digest functions that only record the lengths of their arguments.
\<close>

definition example_platform :: platform where
  "example_platform =
     \<lparr>url_parse = (\<lambda>u.
        if u = ''http://h/p?b=2&a=1''
          then \<lparr>url_host = Some ''h'', url_pathname = Some ''/p'', url_query = Some ''b=2&a=1''\<rparr>
        else if u = ''http://h/a!b''
          then \<lparr>url_host = Some ''h'', url_pathname = Some ''/a!b'', url_query = None\<rparr>
        else if u = ''http://h/''
          then \<lparr>url_host = Some ''h'', url_pathname = Some ''/'', url_query = None\<rparr>
        else \<lparr>url_host = None, url_pathname = None, url_query = None\<rparr>),
      sha256_digest = (\<lambda>bs. [of_nat (length bs)]),
      hmac_sha256 = (\<lambda>k m. [of_nat (length k), of_nat (length m)]),
      json_stringify = (\<lambda>_. ''{}''),
      now = \<lparr>year = 2015, month = 8, day = 30, hours = 12, minutes = 36, seconds = 0,
             milliseconds = 0\<rparr>\<rparr>"

definition example_config :: config_input where
  "example_config =
     \<lparr>cfg_accessKeyId = Some ''AKIDEXAMPLE'', cfg_secretAccessKey = Some ''secret'',
      cfg_sessionToken = None, cfg_region = None, cfg_service = None,
      cfg_defaultContentType = None, cfg_defaultAcceptType = None,
      cfg_defaultExpectType = None, cfg_payloadSerializer = None,
      cfg_payloadSerializerFactory = None, cfg_hasherFactory = None\<rparr>"

definition example_date :: jsdate where
  "example_date =
     \<lparr>year = 2015, month = 8, day = 30, hours = 12, minutes = 36, seconds = 0,
      milliseconds = 0\<rparr>"

definition example_request :: request where
  "example_request =
     \<lparr>req_method = Some ''GET'', url = ''http://h/'', headers = None, params = None,
      body = None, data = None\<rparr>"

text \<open>The signers that the two constructors build from \<^const>\<open>example_config\<close>.\<close>

definition example_signer :: signer where
  "example_signer =
     \<lparr>self_config = extend_config (defaultConfig example_platform) example_config,
      self_payloadSerializer = Some (json_stringify example_platform),
      self_hasher = \<lparr>hash = sha256 example_platform, hmac_of = None\<rparr>\<rparr>"

definition example_signer_web :: signer where
  "example_signer_web =
     \<lparr>self_config = extend_config (defaultConfig_web example_platform) example_config,
      self_payloadSerializer = Some (json_stringify example_platform),
      self_hasher = CryptoJSHasher example_platform ()\<rparr>"

text \<open>
  Requests: with a query string, with an exclamation mark in the path, with a body and
  parameters, with headers of the caller's but no body, and with letters outside ASCII
  in the method and in a header name, a header that becomes \<^verbatim>\<open>__proto__\<close> in lower case
  and a parameter of that name.
\<close>

definition query_request :: request where
  "query_request =
     \<lparr>req_method = Some ''GET'', url = ''http://h/p?b=2&a=1'',
      headers = Some [(''X-Amz-Content-Sha256'', Str ''UNSIGNED-PAYLOAD'')],
      params = Some [(''c'', ''3'')], body = None, data = None\<rparr>"

definition bang_request :: request where
  "bang_request =
     \<lparr>req_method = Some ''GET'', url = ''http://h/a!b'',
      headers = Some [(''X-Amz-Content-Sha256'', Str ''UNSIGNED-PAYLOAD'')],
      params = None, body = None, data = None\<rparr>"

definition unsigned_request :: request where
  "unsigned_request =
     \<lparr>req_method = Some ''get'', url = ''http://h/'',
      headers = Some [(''X-Amz-Content-Sha256'', Str ''UNSIGNED-PAYLOAD'')],
      params = Some [(''b'', ''2''), (''a'', ''1'')],
      body = Some ''hello'', data = None\<rparr>"

definition typed_request :: request where
  "typed_request =
     \<lparr>req_method = Some ''GET'', url = ''http://h/'',
      headers = Some [(''X-Amz-Content-Sha256'', Str ''UNSIGNED-PAYLOAD''),
                      (''Content-Type'', Str ''text/plain; charset=utf-8''),
                      (''X-Amz-Date'', Str ''yesterday'')],
      params = None, body = None, data = None\<rparr>"


definition year_10000 :: jsdate where
  "year_10000 =
     \<lparr>year = 10000, month = 1, day = 1, hours = 0, minutes = 0, seconds = 0,
      milliseconds = 0\<rparr>"

text \<open>
  A store with \<^const>\<open>example_signer\<close>, its configuration, and \<^const>\<open>unsigned_request\<close>
  with its headers and parameters, at the addresses 1, 0, 4, 2 and 3.
\<close>

definition example_heap :: heap where
  "example_heap =
     [[(''accessKeyId'', VStr ''AKIDEXAMPLE''), (''secretAccessKey'', VStr ''secret''),
       (''region'', VStr ''eu-west-1''), (''service'', VStr ''execute-api''),
       (''defaultContentType'', VStr ''application/json''),
       (''defaultAcceptType'', VStr ''application/json''),
       (''defaultExpectType'', VStr ''100-continue'')],
      [(''config'', Ref 0),
       (''payloadSerializer'', VSerializer (json_stringify example_platform)),
       (''hasher'', VHasher \<lparr>hash = sha256 example_platform, hmac_of = None\<rparr>)],
      [(''X-Amz-Content-Sha256'', VStr ''UNSIGNED-PAYLOAD'')],
      [(''b'', VStr ''2''), (''a'', VStr ''1'')],
      [(''method'', VStr ''get''), (''url'', VStr ''http://h/''), (''headers'', Ref 2),
       (''params'', Ref 3), (''body'', VStr ''hello'')]]"

section \<open>Properties\<close>

subsection \<open>Dates\<close>

lemma is_digit_digit_char: "n < 10 \<Longrightarrow> is_digit (digit_char n)"
  by (simp add: is_digit_def digit_char_def)

lemma dec_digits: "list_all is_digit (dec n)"
proof (induction n rule: dec.induct)
  case (1 n)
  show ?case
  proof (cases "n < 10")
    case True
    then show ?thesis by (subst dec.simps) (simp add: is_digit_digit_char)
  next
    case False
    with 1 show ?thesis by (subst dec.simps) (simp add: is_digit_digit_char)
  qed
qed

lemma length_dec_pos: "0 < length (dec n)"
  by (subst dec.simps) simp

lemma length_dec_le: "n < 10 ^ k \<Longrightarrow> 0 < k \<Longrightarrow> length (dec n) \<le> k"
proof (induction n arbitrary: k rule: dec.induct)
  case (1 n)
  show ?case
  proof (cases "n < 10")
    case True
    with 1 show ?thesis by (subst dec.simps) simp
  next
    case False
    with 1(2) have k: "1 < k" by (cases k; cases "k - 1") auto
    then obtain j where j: "k = Suc j" "0 < j" by (cases k) auto
    from 1(2) j have "n div 10 < 10 ^ j" by (simp add: less_mult_imp_div_less mult.commute)
    with 1(1) [OF False _ j(2)] have "length (dec (n div 10)) \<le> j" by simp
    with False j show ?thesis by (subst dec.simps) simp
  qed
qed

lemma pad_digits: "list_all is_digit s \<Longrightarrow> list_all is_digit (padStart0 k s)"
  by (auto simp: padStart0_def is_digit_def list_all_iff)

lemma length_pad: "length s \<le> k \<Longrightarrow> length (padStart0 k s) = k"
  by (simp add: padStart0_def)

lemma is_digit_not_sep: "is_digit c \<Longrightarrow> c \<noteq> CHR '':'' \<and> c \<noteq> CHR ''-'' \<and> c \<noteq> CHR ''.''"
  by (auto simp: is_digit_def)

lemma replace_digits:
  "list_all is_digit ds \<Longrightarrow> replace_separators (ds @ rest) = ds @ replace_separators rest"
  by (induction ds) (auto dest: is_digit_not_sep)

lemma replace_hyphen: "replace_separators (CHR ''-'' # rest) = replace_separators rest"
  by simp

lemma replace_colon: "replace_separators (CHR '':'' # rest) = replace_separators rest"
  by simp

lemma replace_T: "replace_separators (CHR ''T'' # rest) = CHR ''T'' # replace_separators rest"
  by simp

lemma replace_millis:
  "list_all is_digit ds \<Longrightarrow> length ds = 3 \<Longrightarrow>
   replace_separators (CHR ''.'' # ds @ rest) = replace_separators rest"
  by simp

lemma replace_Z: "replace_separators ''Z'' = ''Z''"
  by simp


lemma toISOString_amz:
  assumes v: "valid_date d" and y: "0 \<le> year d" "year d \<le> 9999"
  shows "replace_separators (toISOString d) =
     padStart0 4 (dec (nat (year d))) @ padStart0 2 (dec (month d)) @ padStart0 2 (dec (day d)) @
     ''T'' @ padStart0 2 (dec (hours d)) @ padStart0 2 (dec (minutes d)) @
     padStart0 2 (dec (seconds d)) @ ''Z''"
proof -
  have ms: "length (padStart0 3 (dec (milliseconds d))) = 3"
    using v by (intro length_pad length_dec_le) (simp_all add: valid_date_def)
  have D: "\<And>k n. list_all is_digit (padStart0 k (dec n))"
    by (simp add: pad_digits dec_digits)
  show ?thesis
    using y ms
    by (simp add: toISOString_def iso_year_def replace_digits D replace_millis
        replace_hyphen replace_colon replace_T replace_Z del: replace_separators.simps(2))
qed

lemma dec_small: "n < 10 \<Longrightarrow> dec n = [digit_char n]"
  by (subst dec.simps) simp

lemma dec_step: "10 \<le> n \<Longrightarrow> dec n = dec (n div 10) @ [digit_char (n mod 10)]"
  by (subst dec.simps) simp

lemma iso10000: "toISOString year_10000 = ''+010000-01-01T00:00:00.000Z''"
  by (simp add: toISOString_def year_10000_def iso_year_def padStart0_def dec_small dec_step
      digit_char_def) code_simp

lemma year_10000_amzDate:
  "amzDate year_10000 False = ''+0100000101T00000''"
  "amzDate year_10000 True = ''+0100000''"
  by (simp_all add: amzDate_def iso10000 is_digit_def)

lemma example_toISOString: "toISOString example_date = ''2015-08-30T12:36:00.000Z''"
  by (simp add: toISOString_def example_date_def iso_year_def padStart0_def dec_small dec_step
      digit_char_def) code_simp

lemma example_amzDate:
  "amzDate example_date True = ''20150830''"
  "amzDate example_date False = ''20150830T123600Z''"
  by (simp_all add: amzDate_def example_toISOString is_digit_def)

text \<open>
  C7, as amended. For a date whose UTC year lies between 0 and 9999, \<^verbatim>\<open>amzDate\<close> without
  \<^verbatim>\<open>short\<close> returns the year in four digits, the month, day, hours, minutes and seconds
  in two digits each, with a \<^verbatim>\<open>T\<close> after the day and a \<^verbatim>\<open>Z\<close> at the end: sixteen
  characters of the form \<^verbatim>\<open>YYYYMMDDTHHMMSSZ\<close>. With \<^verbatim>\<open>short\<close> it returns the first eight
  characters of that, the year, month and day.
\<close>

theorem amzDate_format:
  assumes "valid_date d" and "0 \<le> year d" and "year d \<le> 9999"
  shows "amzDate d False =
       padStart0 4 (dec (nat (year d))) @ padStart0 2 (dec (month d)) @
       padStart0 2 (dec (day d)) @ ''T'' @ padStart0 2 (dec (hours d)) @
       padStart0 2 (dec (minutes d)) @ padStart0 2 (dec (seconds d)) @ ''Z'' \<and>
     is_amz_long (amzDate d False) \<and>
     amzDate d True = take 8 (amzDate d False) \<and>
     amzDate d True =
       padStart0 4 (dec (nat (year d))) @ padStart0 2 (dec (month d)) @ padStart0 2 (dec (day d))"
proof -
  let ?Y = "padStart0 4 (dec (nat (year d)))" and ?M = "padStart0 2 (dec (month d))"
    and ?D = "padStart0 2 (dec (day d))" and ?h = "padStart0 2 (dec (hours d))"
    and ?m = "padStart0 2 (dec (minutes d))" and ?s = "padStart0 2 (dec (seconds d))"
  have dig: "\<And>k n. list_all is_digit (padStart0 k (dec n))"
    by (simp add: pad_digits dec_digits)
  have "nat (year d) < 10 ^ 4"
    using assms(2,3) by simp
  then have lY: "length ?Y = 4"
    by (intro length_pad length_dec_le) simp_all
  have lM: "length ?M = 2" and lD: "length ?D = 2" and lh: "length ?h = 2"
    and lm: "length ?m = 2" and ls: "length ?s = 2"
    using assms(1) by (auto intro!: length_pad length_dec_le simp: valid_date_def)
  have long: "amzDate d False = ?Y @ ?M @ ?D @ ''T'' @ ?h @ ?m @ ?s @ ''Z''"
    using lY lM lD lh lm ls
    by (simp add: amzDate_def toISOString_amz [OF assms])
  have short: "amzDate d True = take 8 (amzDate d False)"
    by (simp add: amzDate_def Let_def)
  have short': "amzDate d True = ?Y @ ?M @ ?D"
    unfolding short long using lY lM lD by simp
  have form: "is_amz_long (amzDate d False)"
    unfolding long is_amz_long_def using lY lM lD lh lm ls
    by (simp add: dig nth_append)
  from long form short short' show ?thesis by blast
qed

theorem amzDate_format_witness:
  "valid_date example_date \<and> amzDate example_date False = ''20150830T123600Z'' \<and>
   is_amz_long (amzDate example_date False) \<and> amzDate example_date True = ''20150830''"
proof -
  have v: "valid_date example_date"
    by (simp add: valid_date_def example_date_def)
  have y: "0 \<le> year example_date" "year example_date \<le> 9999"
    by (simp_all add: example_date_def)
  from amzDate_format [OF v y] show ?thesis
    using v by (simp add: example_amzDate)
qed

text \<open>
  For the year 10000 \<^verbatim>\<open>toISOString\<close> uses the expanded form, and the result is neither
  of the form \<^verbatim>\<open>YYYYMMDDTHHMMSSZ\<close> nor, when short, eight digits.
\<close>

theorem amzDate_format_counterexample:
  "valid_date year_10000 \<and>
   amzDate year_10000 False = ''+0100000101T00000'' \<and>
   \<not> is_amz_long (amzDate year_10000 False) \<and>
   amzDate year_10000 True = ''+0100000'' \<and>
   \<not> list_all is_digit (amzDate year_10000 True)"
  by (simp add: year_10000_amzDate is_amz_long_def is_digit_def)
    (simp add: valid_date_def year_10000_def)

subsection \<open>Construction\<close>

lemma not_truthy_string: "(\<not> truthy_string x) = (x = None \<or> x = Some [])"
  by (cases x) auto

lemma truthy_string_Some: "truthy_string x \<Longrightarrow> \<exists>s. x = Some s \<and> s \<noteq> []"
  by (cases x) auto

lemma merged_accessKeyId:
  "accessKeyId (extend_config (defaultConfig P) cfg) = cfg_accessKeyId cfg"
  "accessKeyId (extend_config (defaultConfig_web P) cfg) = cfg_accessKeyId cfg"
  by (simp_all add: extend_config_def defaultConfig_def defaultConfig_web_def split: option.splits)

lemma merged_secretAccessKey:
  "secretAccessKey (extend_config (defaultConfig P) cfg) = cfg_secretAccessKey cfg"
  "secretAccessKey (extend_config (defaultConfig_web P) cfg) = cfg_secretAccessKey cfg"
  by (simp_all add: extend_config_def defaultConfig_def defaultConfig_web_def split: option.splits)

lemma merged_hasherFactory:
  "hasherFactory (extend_config d cfg) = pick (cfg_hasherFactory cfg) (hasherFactory d)"
  by (simp add: extend_config_def)

lemma AwsSigner_isl:
  "isl (AwsSigner P cfg) =
     (\<not> truthy_string (cfg_accessKeyId cfg) \<or> \<not> truthy_string (cfg_secretAccessKey cfg))"
  by (simp add: AwsSigner_def assert_truthy_def Let_def merged_accessKeyId
      merged_secretAccessKey)

lemma AwsSigner_web_isl:
  "isl (AwsSigner_web P cfg) =
     (\<not> truthy_string (cfg_accessKeyId cfg) \<or> \<not> truthy_string (cfg_secretAccessKey cfg))"
  by (simp add: AwsSigner_web_def assertRequired_def Let_def merged_accessKeyId
      merged_secretAccessKey)

lemma AwsSigner_Inr:
  assumes "AwsSigner P cfg = Inr self"
  shows "self_config self = extend_config (defaultConfig P) cfg"
    and "truthy_string (cfg_accessKeyId cfg)"
    and "truthy_string (cfg_secretAccessKey cfg)"
    and "self_hasher self = hasherFactory (extend_config (defaultConfig P) cfg) ()"
  using assms
  by (auto simp: AwsSigner_def assert_truthy_def Let_def merged_accessKeyId
      merged_secretAccessKey split: if_splits)

lemma AwsSigner_web_Inr:
  assumes "AwsSigner_web P cfg = Inr self"
  shows "self_config self = extend_config (defaultConfig_web P) cfg"
    and "truthy_string (cfg_accessKeyId cfg)"
    and "truthy_string (cfg_secretAccessKey cfg)"
    and "self_hasher self = hasherFactory (extend_config (defaultConfig_web P) cfg) ()"
  using assms
  by (auto simp: AwsSigner_web_def assertRequired_def Let_def merged_accessKeyId
      merged_secretAccessKey split: if_splits)


lemma example_AwsSigner:
  "\<exists>self. AwsSigner example_platform example_config = Inr self"
  "\<exists>self. AwsSigner_web example_platform example_config = Inr self"
  using AwsSigner_isl [of example_platform example_config]
    AwsSigner_web_isl [of example_platform example_config]
  by (cases "AwsSigner example_platform example_config"; cases "AwsSigner_web example_platform example_config";
      simp add: example_config_def)+

text \<open>
  C8. Constructing a signer throws exactly when \<^verbatim>\<open>accessKeyId\<close> or \<^verbatim>\<open>secretAccessKey\<close>
  is missing or the empty string; with two non-empty credentials it succeeds. This holds
  for the constructor of either source file.
\<close>

theorem AwsSigner_throws_iff:
  "(isl (AwsSigner P cfg) \<longleftrightarrow>
      cfg_accessKeyId cfg = None \<or> cfg_accessKeyId cfg = Some [] \<or>
      cfg_secretAccessKey cfg = None \<or> cfg_secretAccessKey cfg = Some []) \<and>
   (isl (AwsSigner_web P cfg) \<longleftrightarrow>
      cfg_accessKeyId cfg = None \<or> cfg_accessKeyId cfg = Some [] \<or>
      cfg_secretAccessKey cfg = None \<or> cfg_secretAccessKey cfg = Some [])"
  unfolding AwsSigner_isl AwsSigner_web_isl not_truthy_string by blast

theorem AwsSigner_throws_iff_witness:
  "\<not> isl (AwsSigner example_platform example_config) \<and>
   \<not> isl (AwsSigner_web example_platform example_config) \<and>
   isl (AwsSigner example_platform (example_config\<lparr>cfg_secretAccessKey := Some []\<rparr>)) \<and>
   isl (AwsSigner_web example_platform (example_config\<lparr>cfg_accessKeyId := None\<rparr>))"
  using AwsSigner_throws_iff [of example_platform example_config]
    AwsSigner_throws_iff [of example_platform "example_config\<lparr>cfg_secretAccessKey := Some []\<rparr>"]
    AwsSigner_throws_iff [of example_platform "example_config\<lparr>cfg_accessKeyId := None\<rparr>"]
  by (simp add: example_config_def)

subsection \<open>The signature\<close>

text \<open>
  C1. For a constructed signer, \<^verbatim>\<open>calculateSignature\<close> sets the signature to the hex
  encoding of the HMAC of the string to sign under the signing key, and the signing key
  is four chained HMACs: keyed with the bytes of \<^verbatim>\<open>"AWS4"\<close> and the secret over the short
  date, then over the region, the service and \<^verbatim>\<open>"aws4_request"\<close>, each keyed with the raw
  bytes of the one before. The CryptoJS variant does the same with its default hasher.
\<close>

theorem calculateSignature_chain:
  "(AwsSigner P cfg = Inr self \<longrightarrow>
     (\<exists>secret. cfg_secretAccessKey cfg = Some secret \<and>
        calculateSignature P self ws =
          ws\<lparr>signature :=
               hex (hmac_sha256 P
                 (hmac_sha256 P
                   (hmac_sha256 P
                     (hmac_sha256 P
                       (hmac_sha256 P (utf8 (''AWS4'' @ secret))
                         (utf8 (amzDate (signDate ws) True)))
                       (utf8 (region (self_config self))))
                     (utf8 (service (self_config self))))
                   (utf8 ''aws4_request''))
                 (utf8 (stringToSign ws)))\<rparr>)) \<and>
   (AwsSigner_web P cfg = Inr self \<and> cfg_hasherFactory cfg = None \<longrightarrow>
     (\<exists>secret. cfg_secretAccessKey cfg = Some secret \<and>
        calculateSignature_web self ws =
          Inr (ws\<lparr>signature :=
               hex (hmac_sha256 P
                 (hmac_sha256 P
                   (hmac_sha256 P
                     (hmac_sha256 P
                       (hmac_sha256 P (utf8 (''AWS4'' @ secret))
                         (utf8 (amzDate (signDate ws) True)))
                       (utf8 (region (self_config self))))
                     (utf8 (service (self_config self))))
                   (utf8 ''aws4_request''))
                 (utf8 (stringToSign ws)))\<rparr>)))"
proof (intro conjI impI)
  assume a: "AwsSigner P cfg = Inr self"
  from AwsSigner_Inr(3) [OF a] obtain secret where s: "cfg_secretAccessKey cfg = Some secret"
    using truthy_string_Some by blast
  have "secretAccessKey (self_config self) = Some secret"
    using AwsSigner_Inr(1) [OF a] s by (simp add: merged_secretAccessKey)
  then show "\<exists>secret. cfg_secretAccessKey cfg = Some secret \<and>
        calculateSignature P self ws =
          ws\<lparr>signature :=
               hex (hmac_sha256 P
                 (hmac_sha256 P
                   (hmac_sha256 P
                     (hmac_sha256 P
                       (hmac_sha256 P (utf8 (''AWS4'' @ secret))
                         (utf8 (amzDate (signDate ws) True)))
                       (utf8 (region (self_config self))))
                     (utf8 (service (self_config self))))
                   (utf8 ''aws4_request''))
                 (utf8 (stringToSign ws)))\<rparr>"
    using s by (simp add: calculateSignature_def hmac_def)
next
  assume "AwsSigner_web P cfg = Inr self \<and> cfg_hasherFactory cfg = None"
  then have a: "AwsSigner_web P cfg = Inr self" and f: "cfg_hasherFactory cfg = None"
    by simp_all
  from AwsSigner_web_Inr(3) [OF a] obtain secret where s: "cfg_secretAccessKey cfg = Some secret"
    using truthy_string_Some by blast
  have k: "secretAccessKey (self_config self) = Some secret"
    using AwsSigner_web_Inr(1) [OF a] s by (simp add: merged_secretAccessKey)
  have h: "self_hasher self = CryptoJSHasher P ()"
    using AwsSigner_web_Inr(4) [OF a] f
    by (simp add: merged_hasherFactory pick_def defaultConfig_web_def)
  show "\<exists>secret. cfg_secretAccessKey cfg = Some secret \<and>
        calculateSignature_web self ws =
          Inr (ws\<lparr>signature :=
               hex (hmac_sha256 P
                 (hmac_sha256 P
                   (hmac_sha256 P
                     (hmac_sha256 P
                       (hmac_sha256 P (utf8 (''AWS4'' @ secret))
                         (utf8 (amzDate (signDate ws) True)))
                       (utf8 (region (self_config self))))
                     (utf8 (service (self_config self))))
                   (utf8 ''aws4_request''))
                 (utf8 (stringToSign ws)))\<rparr>)"
    using s k h by (simp add: calculateSignature_web_def CryptoJSHasher_def pick_def)
qed

lemma example_regions:
  "region (extend_config (defaultConfig P) example_config) = ''eu-west-1''"
  "service (extend_config (defaultConfig P) example_config) = ''execute-api''"
  "region (extend_config (defaultConfig_web P) example_config) = ''eu-west-1''"
  "service (extend_config (defaultConfig_web P) example_config) = ''execute-api''"
  by (simp_all add: extend_config_def defaultConfig_def defaultConfig_web_def example_config_def
      pick_def)

lemma example_hmac:
  "hmac_sha256 example_platform k m = [of_nat (length k), of_nat (length m)]"
  by (simp add: example_platform_def)

lemma example_hex: "hex [2, 0] = ''0200''"
  by code_simp

theorem calculateSignature_chain_witness:
  "(\<exists>self. AwsSigner example_platform example_config = Inr self \<and>
      signature (calculateSignature example_platform self
        (new_working_set example_request example_date (parseUrl example_platform ''http://h/'')))
        = ''0200'') \<and>
   (\<exists>self. AwsSigner_web example_platform example_config = Inr self \<and>
      cfg_hasherFactory example_config = None \<and>
      map_sum id signature (calculateSignature_web self
        (new_working_set example_request example_date (parseUrl example_platform ''http://h/'')))
        = Inr ''0200'')"
proof (intro conjI)
  let ?ws = "new_working_set example_request example_date (parseUrl example_platform ''http://h/'')"
  have s: "stringToSign ?ws = []"
    by (simp add: new_working_set_def)
  obtain self where a: "AwsSigner example_platform example_config = Inr self"
    using example_AwsSigner(1) by blast
  from calculateSignature_chain [of example_platform example_config self ?ws] a
  obtain secret where
    "calculateSignature example_platform self ?ws =
       ?ws\<lparr>signature := hex (hmac_sha256 example_platform
                 (hmac_sha256 example_platform
                   (hmac_sha256 example_platform
                     (hmac_sha256 example_platform
                       (hmac_sha256 example_platform (utf8 (''AWS4'' @ secret))
                         (utf8 (amzDate (signDate ?ws) True)))
                       (utf8 (region (self_config self))))
                     (utf8 (service (self_config self))))
                   (utf8 ''aws4_request''))
                 (utf8 (stringToSign ?ws)))\<rparr>"
    by blast
  then have "signature (calculateSignature example_platform self ?ws) = ''0200''"
    by (simp add: example_hmac s utf8_def example_hex)
  with a show "\<exists>self. AwsSigner example_platform example_config = Inr self \<and>
      signature (calculateSignature example_platform self ?ws) = ''0200''"
    by blast
next
  let ?ws = "new_working_set example_request example_date (parseUrl example_platform ''http://h/'')"
  have s: "stringToSign ?ws = []"
    by (simp add: new_working_set_def)
  obtain self where a: "AwsSigner_web example_platform example_config = Inr self"
    using example_AwsSigner(2) by blast
  have f: "cfg_hasherFactory example_config = None"
    by (simp add: example_config_def)
  from calculateSignature_chain [of example_platform example_config self ?ws] a f
  obtain secret where
    "calculateSignature_web self ?ws =
       Inr (?ws\<lparr>signature := hex (hmac_sha256 example_platform
                 (hmac_sha256 example_platform
                   (hmac_sha256 example_platform
                     (hmac_sha256 example_platform
                       (hmac_sha256 example_platform (utf8 (''AWS4'' @ secret))
                         (utf8 (amzDate (signDate ?ws) True)))
                       (utf8 (region (self_config self))))
                     (utf8 (service (self_config self))))
                   (utf8 ''aws4_request''))
                 (utf8 (stringToSign ?ws)))\<rparr>)"
    by blast
  then have "map_sum id signature (calculateSignature_web self ?ws) = Inr ''0200''"
    by (simp add: example_hmac s utf8_def example_hex)
  with a f show "\<exists>self. AwsSigner_web example_platform example_config = Inr self \<and>
      cfg_hasherFactory example_config = None \<and>
      map_sum id signature (calculateSignature_web self ?ws) = Inr ''0200''"
    by blast
qed

subsection \<open>The string to sign\<close>

text \<open>
  C2. The credential scope is the short date, the region, the service and
  \<^verbatim>\<open>aws4_request\<close>, separated by slashes. The string to sign is the four lines
  \<^verbatim>\<open>AWS4-HMAC-SHA256\<close>, the long date, the credential scope and the hash of the canonical
  request, separated by single newlines; both source files build the same string, and
  the hash of the default hasher is the hex encoding of the SHA-256 digest.
\<close>

theorem buildStringToSign_format:
  "credentialScope (buildStringToSign self ws) =
     amzDate (signDate ws) True @ ''/'' @ region (self_config self) @ ''/'' @
     service (self_config self) @ ''/aws4_request'' \<and>
   stringToSign (buildStringToSign self ws) =
     ''AWS4-HMAC-SHA256'' @ LF @ amzDate (signDate ws) False @ LF @
     credentialScope (buildStringToSign self ws) @ LF @
     hash (self_hasher self) (canonicalRequest ws) \<and>
   buildStringToSign_web self ws = buildStringToSign self ws \<and>
   ((AwsSigner P cfg = Inr self \<or> AwsSigner_web P cfg = Inr self) \<and>
      cfg_hasherFactory cfg = None \<longrightarrow>
    hash (self_hasher self) (canonicalRequest ws) =
      hex (sha256_digest P (utf8 (canonicalRequest ws))))"
proof (intro conjI impI)
  show "credentialScope (buildStringToSign self ws) =
     amzDate (signDate ws) True @ ''/'' @ region (self_config self) @ ''/'' @
     service (self_config self) @ ''/aws4_request''"
    by (simp add: buildStringToSign_def Let_def)
  show "stringToSign (buildStringToSign self ws) =
     ''AWS4-HMAC-SHA256'' @ LF @ amzDate (signDate ws) False @ LF @
     credentialScope (buildStringToSign self ws) @ LF @
     hash (self_hasher self) (canonicalRequest ws)"
    by (simp add: buildStringToSign_def Let_def)
  show "buildStringToSign_web self ws = buildStringToSign self ws"
    by (simp add: buildStringToSign_def buildStringToSign_web_def Let_def)
next
  assume h: "(AwsSigner P cfg = Inr self \<or> AwsSigner_web P cfg = Inr self) \<and>
      cfg_hasherFactory cfg = None"
  then have "self_hasher self = \<lparr>hash = sha256 P, hmac_of = None\<rparr> \<or>
      self_hasher self = CryptoJSHasher P ()"
    using AwsSigner_Inr(4) [of P cfg self] AwsSigner_web_Inr(4) [of P cfg self]
    by (auto simp: merged_hasherFactory pick_def defaultConfig_def defaultConfig_web_def)
  then show "hash (self_hasher self) (canonicalRequest ws) =
      hex (sha256_digest P (utf8 (canonicalRequest ws)))"
    by (auto simp: sha256_def CryptoJSHasher_def)
qed

lemma example_sha256: "sha256_digest example_platform bs = [of_nat (length bs)]"
  by (simp add: example_platform_def)

lemma example_hex0: "hex [0] = ''00''"
  by code_simp

theorem buildStringToSign_format_witness:
  "\<exists>self. AwsSigner example_platform example_config = Inr self \<and>
     cfg_hasherFactory example_config = None \<and>
     credentialScope (buildStringToSign self
       (new_working_set example_request example_date (parseUrl example_platform ''http://h/''))) =
       ''20150830/eu-west-1/execute-api/aws4_request'' \<and>
     stringToSign (buildStringToSign self
       (new_working_set example_request example_date (parseUrl example_platform ''http://h/''))) =
       ''AWS4-HMAC-SHA256'' @ LF @ ''20150830T123600Z'' @ LF @
       ''20150830/eu-west-1/execute-api/aws4_request'' @ LF @ ''00''"
proof -
  let ?ws = "new_working_set example_request example_date (parseUrl example_platform ''http://h/'')"
  have s: "canonicalRequest ?ws = []" "signDate ?ws = example_date"
    by (simp_all add: new_working_set_def)
  obtain self where a: "AwsSigner example_platform example_config = Inr self"
    using example_AwsSigner(1) by blast
  have f: "cfg_hasherFactory example_config = None"
    by (simp add: example_config_def)
  have c: "self_config self = extend_config (defaultConfig example_platform) example_config"
    by (rule AwsSigner_Inr(1) [OF a])
  from buildStringToSign_format [of self ?ws example_platform example_config] a f
  have "credentialScope (buildStringToSign self ?ws) =
       ''20150830/eu-west-1/execute-api/aws4_request'' \<and>
     stringToSign (buildStringToSign self ?ws) =
       ''AWS4-HMAC-SHA256'' @ LF @ ''20150830T123600Z'' @ LF @
       ''20150830/eu-west-1/execute-api/aws4_request'' @ LF @ ''00''"
    by (simp add: s c example_regions example_amzDate example_sha256 utf8_def example_hex0)
  with a f show ?thesis by blast
qed

subsection \<open>The canonical request\<close>

lemma split_not_Nil: "split c s \<noteq> []"
  by (induction s) (auto split: list.splits)

lemma join_Cons: "ys \<noteq> [] \<Longrightarrow> join sep (x # ys) = x @ sep @ join sep ys"
  by (cases ys) auto

lemma join_map_split:
  "join [c] (map (\<lambda>seg. concat (map g seg)) (split c s)) =
     concat (map (\<lambda>x. if x = c then [c] else g x) s)"
proof (induction s)
  case Nil
  show ?case by simp
next
  case (Cons x xs)
  obtain t ts where sp: "split c xs = t # ts"
    using split_not_Nil [of c xs] by (cases "split c xs") auto
  show ?case
  proof (cases "x = c")
    case True
    with Cons sp show ?thesis by (simp add: join_Cons)
  next
    case False
    with Cons sp show ?thesis by (cases ts) auto
  qed
qed

lemma canonicalURI_chars:
  "canonicalURI p = concat (map (\<lambda>c. if c = CHR ''/'' then ''/'' else encode_char c) p)"
  unfolding canonicalURI_def encodeURIComponent_def
  using join_map_split [of "CHR ''/''" encode_char p] by (simp add: comp_def)

lemma encode_char_unescaped: "uriUnescaped c \<Longrightarrow> encode_char c = [c]"
  by (simp add: encode_char_def)

lemma utf8_char_not_Nil: "utf8_char c \<noteq> []"
  by (simp add: utf8_char_def Let_def)

lemma encode_char_escaped:
  "\<not> uriUnescaped c \<Longrightarrow> \<exists>rest. encode_char c = CHR ''%'' # rest \<and> 2 \<le> length rest"
  using utf8_char_not_Nil [of c]
  by (cases "utf8_char c") (auto simp: encode_char_def percent_def)


lemma example_signer_eq: "AwsSigner example_platform example_config = Inr example_signer"
  by (simp add: AwsSigner_def assert_truthy_def Let_def merged_accessKeyId
      merged_secretAccessKey example_signer_def)
    (simp add: example_config_def extend_config_def defaultConfig_def pick_def)

lemma example_signer_web_eq:
  "AwsSigner_web example_platform example_config = Inr example_signer_web"
  by (simp add: AwsSigner_web_def assertRequired_def Let_def merged_accessKeyId
      merged_secretAccessKey example_signer_web_def)
    (simp add: example_config_def extend_config_def defaultConfig_web_def pick_def
      JsonPayloadSerializer_def)

lemma prepare_Inr:
  assumes "prepare self ws0 = Inr ws"
  shows "\<exists>m. req_method (ws_request ws0) = Some m \<and>
           ws = ws0\<lparr>ws_request := (ws_request ws0)\<lparr>req_method := Some (toUpperCase m),
                 headers := Some (strip_content_type (extend_obj (snd (payload_or_not self ws0))
                   (normalized (case headers (ws_request ws0) of None \<Rightarrow> [] | Some hs \<Rightarrow> hs))))\<rparr>,
               payload := fst (payload_or_not self ws0),
               sortedHeaderKeys := sort (map fst (extend_obj (snd (payload_or_not self ws0))
                   (normalized (case headers (ws_request ws0) of None \<Rightarrow> [] | Some hs \<Rightarrow> hs)))),
               ws_uri := (case params (ws_request ws0) of
                   None \<Rightarrow> ws_uri ws0
                 | Some ps \<Rightarrow> (ws_uri ws0)\<lparr>query := extend_query (query (ws_uri ws0)) ps\<rparr>)\<rparr>"
  using assms
  by (auto simp: prepare_def Let_def split_beta split: option.splits)

subsection \<open>Case mapping\<close>

lemma upper_char_upper: "d \<in> set (upper_char c) \<Longrightarrow> upper_char d = [d]"
  by (auto simp: upper_char_def Let_def split: if_splits)

lemma toUpperCase_append: "toUpperCase (a @ b) = toUpperCase a @ toUpperCase b"
  by (simp add: toUpperCase_def)

lemma toUpperCase_upper_char: "toUpperCase (upper_char c) = upper_char c"
proof -
  have "\<forall>d \<in> set xs. upper_char d = [d] \<Longrightarrow> concat (map upper_char xs) = xs" for xs
    by (induction xs) auto
  then show ?thesis
    unfolding toUpperCase_def using upper_char_upper [of _ c] by blast
qed

lemma toUpperCase_idem: "toUpperCase (toUpperCase s) = toUpperCase s"
proof (induction s)
  case Nil
  show ?case by (simp add: toUpperCase_def)
next
  case (Cons c s)
  have "toUpperCase (c # s) = upper_char c @ toUpperCase s"
    by (simp add: toUpperCase_def)
  with Cons show ?case
    by (simp add: toUpperCase_append toUpperCase_upper_char)
qed

lemma lower_char_idem: "lower_char (lower_char c) = lower_char c"
  by (auto simp: lower_char_def Let_def)

lemma toLowerCase_idem: "toLowerCase (toLowerCase s) = toLowerCase s"
  by (simp add: toLowerCase_def lower_char_idem)

lemma toLocaleLowerCase_fixed: "toLowerCase k = k \<Longrightarrow> toLocaleLowerCase k = k"
  by (simp add: toLocaleLowerCase_def)

subsection \<open>Objects\<close>

lemma extend_obj_snoc:
  "extend_obj t (s @ [(k, v)]) =
     (if k = ''__proto__'' then extend_obj t s else AList.update k v (extend_obj t s))"
  by (simp add: extend_obj_def)

lemma map_of_extend_obj:
  "k \<noteq> ''__proto__'' \<Longrightarrow> map_of (extend_obj t s) k = (map_of t ++ map_of (rev s)) k"
proof (induction s rule: rev_induct)
  case Nil
  show ?case by (simp add: extend_obj_def)
next
  case (snoc x xs)
  obtain k' v where x: "x = (k', v)" by (cases x)
  from snoc show ?case
    unfolding x extend_obj_snoc
    by (auto simp: AList.update_conv' map_add_def split: option.splits)
qed

lemma map_of_extend_obj_proto: "map_of (extend_obj t s) ''__proto__'' = map_of t ''__proto__''"
proof (induction s rule: rev_induct)
  case Nil
  show ?case by (simp add: extend_obj_def)
next
  case (snoc x xs)
  obtain k' v where x: "x = (k', v)" by (cases x)
  from snoc show ?case
    unfolding x extend_obj_snoc by (simp add: AList.update_conv')
qed

lemma keys_extend_obj:
  "fst ` set (extend_obj t s) = fst ` set t \<union> (fst ` set s - {''__proto__''})"
proof (induction s rule: rev_induct)
  case Nil
  show ?case by (simp add: extend_obj_def)
next
  case (snoc x xs)
  obtain k v where x: "x = (k, v)" by (cases x)
  show ?case
    unfolding x extend_obj_snoc using snoc.IH
    by (auto simp: AList.dom_update)
qed

lemma distinct_extend_obj: "distinct (map fst t) \<Longrightarrow> distinct (map fst (extend_obj t s))"
proof (induction s rule: rev_induct)
  case Nil
  then show ?case by (simp add: extend_obj_def)
next
  case (snoc x xs)
  obtain k v where x: "x = (k, v)" by (cases x)
  from snoc show ?case
    unfolding x extend_obj_snoc by (simp add: AList.distinct_update)
qed

lemma reduce_normalized_snoc:
  "reduce_normalized (hs @ [(k, v)]) = assign_normalized (reduce_normalized hs) (toLowerCase k) v"
  by (simp add: reduce_normalized_def)

lemma keys_assign_normalized:
  "fst ` set (snd (assign_normalized n k v)) \<subseteq> insert k (fst ` set (snd n))"
  by (auto simp: assign_normalized_def AList.dom_update)

lemma keys_normalized: "fst ` set (normalized hs) \<subseteq> toLowerCase ` fst ` set hs"
proof (induction hs rule: rev_induct)
  case Nil
  show ?case by (simp add: normalized_def reduce_normalized_def)
next
  case (snoc x xs)
  obtain k v where x: "x = (k, v)" by (cases x)
  have "fst ` set (normalized (xs @ [x])) \<subseteq> insert (toLowerCase k) (fst ` set (normalized xs))"
    unfolding x normalized_def reduce_normalized_snoc by (rule keys_assign_normalized)
  also have "\<dots> \<subseteq> insert (toLowerCase k) (toLowerCase ` fst ` set xs)"
    using snoc.IH by blast
  also have "\<dots> = toLowerCase ` fst ` set (xs @ [x])"
    by (simp add: x)
  finally show ?case .
qed

lemma distinct_normalized: "distinct (map fst (normalized hs))"
proof (induction hs rule: rev_induct)
  case Nil
  show ?case by (simp add: normalized_def reduce_normalized_def)
next
  case (snoc x xs)
  obtain k v where x: "x = (k, v)" by (cases x)
  from snoc show ?case
    unfolding x normalized_def reduce_normalized_snoc
    by (simp add: assign_normalized_def AList.distinct_update)
qed

lemma map_of_rev_distinct: "distinct (map fst xs) \<Longrightarrow> map_of (rev xs) = map_of xs"
  by (subst map_of_inject_set) (simp_all add: rev_map [symmetric])

lemma map_of_extend_normalized:
  "k \<noteq> ''__proto__'' \<Longrightarrow>
   map_of (extend_obj t (normalized hs)) k =
     (case map_of (normalized hs) k of Some v \<Rightarrow> Some v | None \<Rightarrow> map_of t k)"
  by (simp add: map_of_extend_obj distinct_normalized map_of_rev_distinct map_add_def)

lemma normalized_None:
  "\<forall>k \<in> fst ` set hs. toLowerCase k \<noteq> name \<Longrightarrow> map_of (normalized hs) name = None"
proof -
  assume a: "\<forall>k \<in> fst ` set hs. toLowerCase k \<noteq> name"
  then have "name \<notin> toLowerCase ` fst ` set hs"
    by blast
  with keys_normalized [of hs] have "name \<notin> fst ` set (normalized hs)"
    by blast
  then show ?thesis
    by (simp add: map_of_eq_None_iff)
qed

lemma keys_strip_content_type: "map fst (strip_content_type hs) = map fst hs"
proof (cases "map_of hs ''content-type''")
  case None
  then show ?thesis by (simp add: strip_content_type_def)
next
  case (Some v)
  then have "''content-type'' \<in> fst ` set hs"
    by (metis map_of_eq_None_iff option.distinct(1))
  then show ?thesis
    by (simp add: strip_content_type_def AList.update_keys split: option.splits jsval.splits)
qed

lemma map_of_strip_content_type:
  "k \<noteq> ''content-type'' \<Longrightarrow> map_of (strip_content_type hs) k = map_of hs k"
  by (simp add: strip_content_type_def AList.update_conv' split: option.splits jsval.splits)

lemma strip_content_type_None:
  "map_of hs ''content-type'' = None \<Longrightarrow> strip_content_type hs = hs"
  by (simp add: strip_content_type_def)


subsection \<open>What prepare leaves in the working set\<close>

lemma base_keys_lower:
  "toLowerCase ''host'' = ''host''" "toLowerCase ''content-type'' = ''content-type''"
  "toLowerCase ''accept'' = ''accept''" "toLowerCase ''expect'' = ''expect''"
  "toLowerCase ''x-amz-date'' = ''x-amz-date''"
  by code_simp+

lemma keys_payload_or_not:
  "fst ` set (snd (payload_or_not self ws)) \<subseteq>
     {''host'', ''content-type'', ''accept'', ''expect'', ''x-amz-date''}"
  "''host'' \<in> fst ` set (snd (payload_or_not self ws))"
  by (auto simp: payload_or_not_def base_headers_def split: option.splits)

lemma prepare_path:
  "prepare self ws0 = Inr ws \<Longrightarrow> path (ws_uri ws) = path (ws_uri ws0)"
  by (drule prepare_Inr) (auto split: option.splits)

lemma prepare_query:
  "prepare self ws0 = Inr ws \<Longrightarrow>
   query (ws_uri ws) =
     (case params (ws_request ws0) of
        None \<Rightarrow> query (ws_uri ws0)
      | Some ps \<Rightarrow> extend_query (query (ws_uri ws0)) ps)"
  by (drule prepare_Inr) (auto split: option.splits)

lemma prepare_signDate: "prepare self ws0 = Inr ws \<Longrightarrow> signDate ws = signDate ws0"
  by (drule prepare_Inr) auto

lemma prepare_payload:
  "prepare self ws0 = Inr ws \<Longrightarrow> payload ws = fst (payload_or_not self ws0)"
  by (drule prepare_Inr) auto

lemma prepare_method:
  "prepare self ws0 = Inr ws \<Longrightarrow>
   \<exists>m. req_method (ws_request ws0) = Some m \<and> req_method (ws_request ws) = Some (toUpperCase m)"
  by (drule prepare_Inr) auto

lemma prepare_headers:
  assumes "prepare self ws0 = Inr ws"
  shows "\<exists>hs. headers (ws_request ws) = Some hs \<and>
           hs = strip_content_type (extend_obj (snd (payload_or_not self ws0))
                  (normalized (case headers (ws_request ws0) of None \<Rightarrow> [] | Some h \<Rightarrow> h))) \<and>
           sortedHeaderKeys ws = sort (map fst hs) \<and>
           sortedHeaderKeys ws \<noteq> [] \<and>
           (\<forall>k \<in> set (sortedHeaderKeys ws). toLowerCase k = k)"
proof -
  let ?caller = "case headers (ws_request ws0) of None \<Rightarrow> [] | Some h \<Rightarrow> h"
  let ?h2 = "extend_obj (snd (payload_or_not self ws0)) (normalized ?caller)"
  let ?hs = "strip_content_type ?h2"
  from prepare_Inr [OF assms]
  have h: "headers (ws_request ws) = Some ?hs" and k: "sortedHeaderKeys ws = sort (map fst ?h2)"
    by auto
  have k': "sortedHeaderKeys ws = sort (map fst ?hs)"
    by (simp add: k keys_strip_content_type)
  have "''host'' \<in> fst ` set ?h2"
    using keys_payload_or_not(2) [of self ws0] by (simp add: keys_extend_obj)
  then have "set (sortedHeaderKeys ws) \<noteq> {}"
    unfolding k by auto
  then have ne: "sortedHeaderKeys ws \<noteq> []"
    by auto
  have "\<forall>k \<in> fst ` set ?h2. toLowerCase k = k"
    using keys_payload_or_not(1) [of self ws0] keys_normalized [of ?caller]
    by (auto simp: keys_extend_obj toLowerCase_idem base_keys_lower)
  then have low: "\<forall>k \<in> set (sortedHeaderKeys ws). toLowerCase k = k"
    unfolding k by simp
  from h k' ne low show ?thesis by blast
qed

lemma join_lines: "xs \<noteq> [] \<Longrightarrow> join sep xs @ sep = concat (map (\<lambda>x. x @ sep) xs)"
  by (induction sep xs rule: join.induct) auto


lemma map_id_on: "\<forall>k \<in> set ks. f k = k \<Longrightarrow> map f ks = ks"
  by (induction ks) auto

lemma buildCanonicalRequest_Inr:
  assumes "buildCanonicalRequest th self ws = Inr ws'"
  shows "\<exists>m p hs ph. req_method (ws_request ws) = Some m \<and> path (ws_uri ws) = Some p \<and>
           headers (ws_request ws) = Some hs \<and> payloadHash th hs (payload ws) = Inr ph \<and>
           signedHeaders ws' = join '';'' (map toLowerCase (sortedHeaderKeys ws)) \<and>
           canonicalRequest ws' =
             toUpperCase m @ LF @ canonicalURI p @ LF @
             canonicalQueryString (query (ws_uri ws)) @ LF @
             join LF (headerLines hs (sortedHeaderKeys ws)) @ LF @ LF @
             signedHeaders ws' @ LF @ ph"
  using assms
  by (auto simp: buildCanonicalRequest_def Let_def split: option.splits sum.splits)

lemma buildCanonicalRequest_web_Inr:
  assumes "buildCanonicalRequest_web self ws = Inr ws'"
  shows "\<exists>p hs ph. path (ws_uri ws) = Some p \<and>
           headers (ws_request ws) = Some hs \<and>
           payloadHash (Some (self_hasher self)) hs (payload ws) = Inr ph \<and>
           signedHeaders ws' = join '';'' (map toLowerCase (sortedHeaderKeys ws)) \<and>
           canonicalRequest ws' =
             toUpperCase (string_of (req_method (ws_request ws))) @ LF @ canonicalURI p @ LF @
             canonicalQueryString (query (ws_uri ws)) @ LF @
             join LF (headerLines hs (sortedHeaderKeys ws)) @ LF @ LF @
             signedHeaders ws' @ LF @ ph"
  using assms
  by (auto simp: buildCanonicalRequest_web_def Let_def split: option.splits sum.splits)

lemma headerLines_block:
  assumes "keys \<noteq> []" and "\<forall>k \<in> set keys. toLowerCase k = k"
  shows "join LF (headerLines hs keys) @ LF =
           concat (map (\<lambda>key. key @ '':'' @ header_value hs key @ LF) keys)"
proof -
  have "headerLines hs keys = map (\<lambda>key. key @ '':'' @ header_value hs key) keys"
    unfolding headerLines_def using assms(2)
    by (intro map_cong) (auto simp: toLocaleLowerCase_fixed)
  moreover have "headerLines hs keys \<noteq> []"
    using assms(1) by (simp add: headerLines_def)
  ultimately show ?thesis
    by (simp add: join_lines comp_def)
qed

lemma canonicalRequest_shape:
  assumes "prepare self ws0 = Inr ws"
    and "buildCanonicalRequest th self ws = Inr ws' \<or> buildCanonicalRequest_web self ws = Inr ws'"
  shows "\<exists>m p hs ph.
           req_method (ws_request ws0) = Some m \<and> path (ws_uri ws0) = Some p \<and>
           headers (ws_request ws) = Some hs \<and>
           sortedHeaderKeys ws = sort (map fst hs) \<and>
           (\<forall>k \<in> set (sortedHeaderKeys ws). toLowerCase k = k) \<and>
           (payloadHash th hs (payload ws) = Inr ph \<or>
            payloadHash (Some (self_hasher self)) hs (payload ws) = Inr ph) \<and>
           signedHeaders ws' = join '';'' (sortedHeaderKeys ws) \<and>
           canonicalRequest ws' =
             toUpperCase m @ LF @
             canonicalURI p @ LF @
             canonicalQueryString (query (ws_uri ws)) @ LF @
             concat (map (\<lambda>key. key @ '':'' @ header_value hs key @ LF) (sortedHeaderKeys ws)) @ LF @
             join '';'' (sortedHeaderKeys ws) @ LF @
             ph"
proof -
  from prepare_method [OF assms(1)] obtain m where
    m: "req_method (ws_request ws0) = Some m" "req_method (ws_request ws) = Some (toUpperCase m)"
    by blast
  from prepare_headers [OF assms(1)] obtain hs where
    hs: "headers (ws_request ws) = Some hs" "sortedHeaderKeys ws = sort (map fst hs)"
      "sortedHeaderKeys ws \<noteq> []" "\<forall>k \<in> set (sortedHeaderKeys ws). toLowerCase k = k"
    by blast
  have low: "map toLowerCase (sortedHeaderKeys ws) = sortedHeaderKeys ws"
    by (rule map_id_on [OF hs(4)])
  have block: "join LF (headerLines hs (sortedHeaderKeys ws)) @ LF =
      concat (map (\<lambda>key. key @ '':'' @ header_value hs key @ LF) (sortedHeaderKeys ws))"
    by (rule headerLines_block [OF hs(3,4)])
  have p0: "path (ws_uri ws) = path (ws_uri ws0)"
    by (rule prepare_path [OF assms(1)])
  from assms(2) show ?thesis
  proof
    assume "buildCanonicalRequest th self ws = Inr ws'"
    from buildCanonicalRequest_Inr [OF this] obtain p ph where
      "path (ws_uri ws) = Some p" "payloadHash th hs (payload ws) = Inr ph"
      "signedHeaders ws' = join '';'' (map toLowerCase (sortedHeaderKeys ws))"
      "canonicalRequest ws' =
             toUpperCase (toUpperCase m) @ LF @ canonicalURI p @ LF @
             canonicalQueryString (query (ws_uri ws)) @ LF @
             (join LF (headerLines hs (sortedHeaderKeys ws)) @ LF) @ LF @
             signedHeaders ws' @ LF @ ph"
      using m hs(1) by auto
    then show ?thesis
      using m(1) hs(1,2,4) p0 unfolding block low toUpperCase_idem by auto
  next
    assume "buildCanonicalRequest_web self ws = Inr ws'"
    from buildCanonicalRequest_web_Inr [OF this] obtain p ph where
      "path (ws_uri ws) = Some p" "payloadHash (Some (self_hasher self)) hs (payload ws) = Inr ph"
      "signedHeaders ws' = join '';'' (map toLowerCase (sortedHeaderKeys ws))"
      "canonicalRequest ws' =
             toUpperCase (toUpperCase m) @ LF @ canonicalURI p @ LF @
             canonicalQueryString (query (ws_uri ws)) @ LF @
             (join LF (headerLines hs (sortedHeaderKeys ws)) @ LF) @ LF @
             signedHeaders ws' @ LF @ ph"
      using m hs(1) by auto
    then show ?thesis
      using m(1) hs(1,2,4) p0 unfolding block low toUpperCase_idem by auto
  qed
qed


lemmas example_defs =
  example_platform_def example_config_def example_signer_def example_signer_web_def
  extend_config_def defaultConfig_def defaultConfig_web_def pick_def
  JsonPayloadSerializer_def CryptoJSHasher_def sha256_def

lemmas pipeline_defs =
  prepare_def payload_or_not_def base_headers_def new_working_set_def parseUrl_def url_path_def
  normalized_def reduce_normalized_def assign_normalized_def extend_obj_def
  strip_content_type_def toLocaleLowerCase_def buildCanonicalRequest_def
  buildCanonicalRequest_web_def payloadHash_def headerLines_def header_value_def

lemmas component_defs = canonicalQueryString_def canonicalURI_def

lemma step1_Inr:
  "(case prepare self w of Inl e \<Rightarrow> Inl e
    | Inr ws \<Rightarrow> map_sum id canonicalRequest (build ws)) = Inr c \<Longrightarrow>
   \<exists>ws ws'. prepare self w = Inr ws \<and> build ws = Inr ws' \<and> canonicalRequest ws' = c"
  by (cases "prepare self w") (auto simp: map_sum_def split: sum.splits)

lemma example_case_mapping:
  "toLowerCase ''X-Amz-Content-Sha256'' = ''x-amz-content-sha256''"
  "toLowerCase ''Content-Type'' = ''content-type''"
  "toLowerCase ''X-Amz-Date'' = ''x-amz-date''"
  "toLowerCase ''x-amz-content-sha256'' = ''x-amz-content-sha256''"
  "toUpperCase ''get'' = ''GET''"
  "toUpperCase ''GET'' = ''GET''"
  by code_simp+










lemma encode_char_iff: "encode_char c = [c] \<longleftrightarrow> uriUnescaped c"
proof
  assume e: "encode_char c = [c]"
  show "uriUnescaped c"
  proof (rule ccontr)
    assume "\<not> uriUnescaped c"
    from encode_char_escaped [OF this] e show False by auto
  qed
qed (rule encode_char_unescaped)

text \<open>
  C4, as amended. For a URL without a query string, the canonical URI in the canonical
  request is the URL's path split at the slashes, each segment encoded by
  \<^verbatim>\<open>encodeURIComponent\<close> and the segments joined by slashes again, so that a slash is
  never encoded. \<^verbatim>\<open>encodeURIComponent\<close> leaves the letters, the digits and
  \<^verbatim>\<open>- _ . ! ~ * ' ( )\<close> as they are and percent-encodes the UTF-8 bytes of every other
  character.
\<close>

theorem canonicalURI_of_path:
  assumes "url_query (url_parse P (url req)) = None"
    and "url_pathname (url_parse P (url req)) = Some p"
    and "prepare self (new_working_set req d (parseUrl P (url req))) = Inr ws"
    and "buildCanonicalRequest th self ws = Inr ws' \<or> buildCanonicalRequest_web self ws = Inr ws'"
  shows "(\<exists>m rest. req_method req = Some m \<and>
            canonicalRequest ws' = toUpperCase m @ LF @ canonicalURI p @ LF @ rest) \<and>
         canonicalURI p = join ''/'' (map encodeURIComponent (split (CHR ''/'') p)) \<and>
         canonicalURI p =
           concat (map (\<lambda>c. if c = CHR ''/'' then ''/'' else encode_char c) p) \<and>
         (\<forall>c. (encode_char c = [c]) =
                (is_alnum c \<or> c \<in> set ''-_.!~*'' \<or> c \<in> set [CHR 0x27, CHR ''('', CHR '')''])) \<and>
         (\<forall>c. encode_char c \<noteq> [c] \<longrightarrow> encode_char c = concat (map percent (utf8_char c)))"
proof -
  have "path (ws_uri (new_working_set req d (parseUrl P (url req)))) = Some p"
    using assms(1,2) by (simp add: new_working_set_def parseUrl_def url_path_def Let_def)
  moreover have "req_method (ws_request (new_working_set req d (parseUrl P (url req)))) =
      req_method req"
    by (simp add: new_working_set_def)
  ultimately obtain m rest where
    "req_method req = Some m"
    "canonicalRequest ws' = toUpperCase m @ LF @ canonicalURI p @ LF @ rest"
    using canonicalRequest_shape [OF assms(3,4)] by auto
  then have 1: "\<exists>m rest. req_method req = Some m \<and>
            canonicalRequest ws' = toUpperCase m @ LF @ canonicalURI p @ LF @ rest"
    by blast
  have 4: "\<forall>c. (encode_char c = [c]) =
                (is_alnum c \<or> c \<in> set ''-_.!~*'' \<or> c \<in> set [CHR 0x27, CHR ''('', CHR '')''])"
    unfolding encode_char_iff by (simp add: uriUnescaped_def)
  have 5: "\<forall>c. encode_char c \<noteq> [c] \<longrightarrow> encode_char c = concat (map percent (utf8_char c))"
    by (simp add: encode_char_def)
  from 1 4 5 show ?thesis
    using canonicalURI_chars [of p] by (simp add: canonicalURI_def)
qed

lemma bang_canonical:
  "(case prepare example_signer
           (new_working_set bang_request example_date
              (parseUrl example_platform (url bang_request))) of
      Inl e \<Rightarrow> Inl e
    | Inr ws \<Rightarrow> map_sum id canonicalRequest (buildCanonicalRequest None example_signer ws)) =
   Inr (''GET'' @ LF @ ''/a!b'' @ LF @ '''' @ LF @
        ''accept:application/json'' @ LF @ ''expect:100-continue'' @ LF @ ''host:h'' @ LF @
        ''x-amz-content-sha256:UNSIGNED-PAYLOAD'' @ LF @
        ''x-amz-date:20150830T123600Z'' @ LF @ LF @
        ''accept;expect;host;x-amz-content-sha256;x-amz-date'' @ LF @ ''UNSIGNED-PAYLOAD'')"
  by (simp add: pipeline_defs component_defs example_defs bang_request_def example_amzDate Let_def
      example_case_mapping base_keys_lower)
    code_simp

lemma bang_spec: "canonicalURI_spec ''/a!b'' = ''/a%21b''"
  by code_simp

lemma bang_code: "canonicalURI ''/a!b'' = ''/a!b''"
  by code_simp

theorem canonicalURI_of_path_witness:
  "\<exists>ws ws' rest.
     prepare example_signer
       (new_working_set bang_request example_date
          (parseUrl example_platform (url bang_request))) = Inr ws \<and>
     buildCanonicalRequest None example_signer ws = Inr ws' \<and>
     canonicalRequest ws' = ''GET'' @ LF @ ''/a!b'' @ LF @ rest"
proof -
  from step1_Inr [OF bang_canonical] obtain ws ws' where
    w: "prepare example_signer
       (new_working_set bang_request example_date
          (parseUrl example_platform (url bang_request))) = Inr ws"
      "buildCanonicalRequest None example_signer ws = Inr ws'"
    by blast
  have q: "url_query (url_parse example_platform (url bang_request)) = None"
    and p: "url_pathname (url_parse example_platform (url bang_request)) = Some ''/a!b''"
    by (simp_all add: example_platform_def bang_request_def)
  from canonicalURI_of_path [OF q p w(1), of None ws'] w(2)
  obtain m rest where "req_method bang_request = Some m"
    "canonicalRequest ws' = toUpperCase m @ LF @ canonicalURI ''/a!b'' @ LF @ rest"
    by blast
  then have "canonicalRequest ws' = ''GET'' @ LF @ ''/a!b'' @ LF @ rest"
    using example_case_mapping(6) by (auto simp: bang_request_def bang_code)
  with w show ?thesis by blast
qed

text \<open>
  The path \<^verbatim>\<open>/a!b\<close> stays as it is, while the unreserved-character rule of RFC 3986
  escapes the exclamation mark.
\<close>

theorem canonicalURI_rfc3986_counterexample:
  "url_pathname (url_parse example_platform (url bang_request)) = Some ''/a!b'' \<and>
   url_query (url_parse example_platform (url bang_request)) = None \<and>
   (case prepare example_signer
           (new_working_set bang_request example_date
              (parseUrl example_platform (url bang_request))) of
      Inl e \<Rightarrow> Inl e
    | Inr ws \<Rightarrow> map_sum id canonicalRequest (buildCanonicalRequest None example_signer ws)) =
   Inr (''GET'' @ LF @ ''/a!b'' @ LF @ [] @ LF @
        ''accept:application/json'' @ LF @ ''expect:100-continue'' @ LF @ ''host:h'' @ LF @
        ''x-amz-content-sha256:UNSIGNED-PAYLOAD'' @ LF @
        ''x-amz-date:20150830T123600Z'' @ LF @ LF @
        ''accept;expect;host;x-amz-content-sha256;x-amz-date'' @ LF @ ''UNSIGNED-PAYLOAD'') \<and>
   canonicalURI_spec ''/a!b'' = ''/a%21b'' \<and>
   canonicalURI ''/a!b'' \<noteq> canonicalURI_spec ''/a!b''"
proof -
  have "url_pathname (url_parse example_platform (url bang_request)) = Some ''/a!b''"
    "url_query (url_parse example_platform (url bang_request)) = None"
    by (simp_all add: example_platform_def bang_request_def)
  moreover have "canonicalURI ''/a!b'' \<noteq> canonicalURI_spec ''/a!b''"
    by (simp add: bang_spec bang_code)
  ultimately show ?thesis
    using bang_spec bang_canonical by simp
qed

subsection \<open>The query string\<close>

lemma query_string_kept:
  assumes "url_query (url_parse P (url req)) = Some q" and "q \<noteq> []"
    and "prepare self (new_working_set req d (parseUrl P (url req))) = Inr ws"
  shows "query (ws_uri ws) = QueryString q"
    and "path (ws_uri ws) =
           Some ((case url_pathname (url_parse P (url req)) of None \<Rightarrow> [] | Some p \<Rightarrow> p) @ ''?'' @ q)"
  using assms(1,2) prepare_query [OF assms(3)] prepare_path [OF assms(3)]
  by (auto simp: new_working_set_def parseUrl_def url_path_def Let_def split: option.splits)

lemma query_components:
  "canonicalQueryString (QueryString ''b=2&a=1'') = ''0=b&1=%3D&2=2&3=%26&4=a&5=%3D&6=1''"
  "canonicalURI ''/p?b=2&a=1'' = ''/p%3Fb%3D2%26a%3D1''"
  by code_simp+

lemma query_canonical:
  "(case prepare example_signer
           (new_working_set query_request example_date
              (parseUrl example_platform (url query_request))) of
      Inl e \<Rightarrow> Inl e
    | Inr ws \<Rightarrow> map_sum id canonicalRequest (buildCanonicalRequest None example_signer ws)) =
   Inr (''GET'' @ LF @ ''/p%3Fb%3D2%26a%3D1'' @ LF @
        ''0=b&1=%3D&2=2&3=%26&4=a&5=%3D&6=1'' @ LF @
        ''accept:application/json'' @ LF @ ''expect:100-continue'' @ LF @ ''host:h'' @ LF @
        ''x-amz-content-sha256:UNSIGNED-PAYLOAD'' @ LF @
        ''x-amz-date:20150830T123600Z'' @ LF @ LF @
        ''accept;expect;host;x-amz-content-sha256;x-amz-date'' @ LF @ ''UNSIGNED-PAYLOAD'')"
  by (simp add: pipeline_defs example_defs query_request_def example_amzDate Let_def
      example_case_mapping base_keys_lower query_components)

lemma query_canonical_web:
  "(case prepare example_signer_web
           (new_working_set query_request example_date
              (parseUrl example_platform (url query_request))) of
      Inl e \<Rightarrow> Inl e
    | Inr ws \<Rightarrow> map_sum id canonicalRequest (buildCanonicalRequest_web example_signer_web ws)) =
   Inr (''GET'' @ LF @ ''/p%3Fb%3D2%26a%3D1'' @ LF @
        ''0=b&1=%3D&2=2&3=%26&4=a&5=%3D&6=1'' @ LF @
        ''accept:application/json'' @ LF @ ''expect:100-continue'' @ LF @ ''host:h'' @ LF @
        ''x-amz-content-sha256:UNSIGNED-PAYLOAD'' @ LF @
        ''x-amz-date:20150830T123600Z'' @ LF @ LF @
        ''accept;expect;host;x-amz-content-sha256;x-amz-date'' @ LF @ ''UNSIGNED-PAYLOAD'')"
  by (simp add: pipeline_defs example_defs query_request_def example_amzDate Let_def
      example_case_mapping base_keys_lower query_components)


text \<open>
  C3. The request \<^verbatim>\<open>GET http://h/p?b=2&a=1\<close> with the parameters \<^verbatim>\<open>{c: "3"}\<close>: the query
  of the parsed URL is the string \<^verbatim>\<open>b=2&a=1\<close>, the parameters are not merged into it,
  and the canonical query string lists its characters by index, in either source file.
  The canonical URI carries the query string as well.
\<close>

theorem query_string_by_character:
  "(\<exists>ws ws'.
      prepare example_signer
        (new_working_set query_request example_date
           (parseUrl example_platform (url query_request))) = Inr ws \<and>
      buildCanonicalRequest None example_signer ws = Inr ws' \<and>
      query (ws_uri ws) = QueryString ''b=2&a=1'' \<and>
      canonicalRequest ws' =
        ''GET'' @ LF @ ''/p%3Fb%3D2%26a%3D1'' @ LF @
        ''0=b&1=%3D&2=2&3=%26&4=a&5=%3D&6=1'' @ LF @
        ''accept:application/json'' @ LF @ ''expect:100-continue'' @ LF @ ''host:h'' @ LF @
        ''x-amz-content-sha256:UNSIGNED-PAYLOAD'' @ LF @
        ''x-amz-date:20150830T123600Z'' @ LF @ LF @
        ''accept;expect;host;x-amz-content-sha256;x-amz-date'' @ LF @ ''UNSIGNED-PAYLOAD'') \<and>
   (\<exists>ws ws'.
      prepare example_signer_web
        (new_working_set query_request example_date
           (parseUrl example_platform (url query_request))) = Inr ws \<and>
      buildCanonicalRequest_web example_signer_web ws = Inr ws' \<and>
      query (ws_uri ws) = QueryString ''b=2&a=1'' \<and>
      canonicalRequest ws' =
        ''GET'' @ LF @ ''/p%3Fb%3D2%26a%3D1'' @ LF @
        ''0=b&1=%3D&2=2&3=%26&4=a&5=%3D&6=1'' @ LF @
        ''accept:application/json'' @ LF @ ''expect:100-continue'' @ LF @ ''host:h'' @ LF @
        ''x-amz-content-sha256:UNSIGNED-PAYLOAD'' @ LF @
        ''x-amz-date:20150830T123600Z'' @ LF @ LF @
        ''accept;expect;host;x-amz-content-sha256;x-amz-date'' @ LF @ ''UNSIGNED-PAYLOAD'')"
proof -
  have q: "url_query (url_parse example_platform (url query_request)) = Some ''b=2&a=1''"
    by (simp add: example_platform_def query_request_def)
  show ?thesis
  proof (intro conjI)
    from step1_Inr [OF query_canonical] obtain ws ws' where
      w: "prepare example_signer
        (new_working_set query_request example_date
           (parseUrl example_platform (url query_request))) = Inr ws"
        "buildCanonicalRequest None example_signer ws = Inr ws'"
        "canonicalRequest ws' =
        ''GET'' @ LF @ ''/p%3Fb%3D2%26a%3D1'' @ LF @
        ''0=b&1=%3D&2=2&3=%26&4=a&5=%3D&6=1'' @ LF @
        ''accept:application/json'' @ LF @ ''expect:100-continue'' @ LF @ ''host:h'' @ LF @
        ''x-amz-content-sha256:UNSIGNED-PAYLOAD'' @ LF @
        ''x-amz-date:20150830T123600Z'' @ LF @ LF @
        ''accept;expect;host;x-amz-content-sha256;x-amz-date'' @ LF @ ''UNSIGNED-PAYLOAD''"
      by blast
    have "query (ws_uri ws) = QueryString ''b=2&a=1''"
      by (rule query_string_kept(1) [OF q _ w(1)]) simp
    with w show "\<exists>ws ws'.
      prepare example_signer
        (new_working_set query_request example_date
           (parseUrl example_platform (url query_request))) = Inr ws \<and>
      buildCanonicalRequest None example_signer ws = Inr ws' \<and>
      query (ws_uri ws) = QueryString ''b=2&a=1'' \<and>
      canonicalRequest ws' =
        ''GET'' @ LF @ ''/p%3Fb%3D2%26a%3D1'' @ LF @
        ''0=b&1=%3D&2=2&3=%26&4=a&5=%3D&6=1'' @ LF @
        ''accept:application/json'' @ LF @ ''expect:100-continue'' @ LF @ ''host:h'' @ LF @
        ''x-amz-content-sha256:UNSIGNED-PAYLOAD'' @ LF @
        ''x-amz-date:20150830T123600Z'' @ LF @ LF @
        ''accept;expect;host;x-amz-content-sha256;x-amz-date'' @ LF @ ''UNSIGNED-PAYLOAD''"
      by blast
  next
    from step1_Inr [OF query_canonical_web] obtain ws ws' where
      w: "prepare example_signer_web
        (new_working_set query_request example_date
           (parseUrl example_platform (url query_request))) = Inr ws"
        "buildCanonicalRequest_web example_signer_web ws = Inr ws'"
        "canonicalRequest ws' =
        ''GET'' @ LF @ ''/p%3Fb%3D2%26a%3D1'' @ LF @
        ''0=b&1=%3D&2=2&3=%26&4=a&5=%3D&6=1'' @ LF @
        ''accept:application/json'' @ LF @ ''expect:100-continue'' @ LF @ ''host:h'' @ LF @
        ''x-amz-content-sha256:UNSIGNED-PAYLOAD'' @ LF @
        ''x-amz-date:20150830T123600Z'' @ LF @ LF @
        ''accept;expect;host;x-amz-content-sha256;x-amz-date'' @ LF @ ''UNSIGNED-PAYLOAD''"
      by blast
    have "query (ws_uri ws) = QueryString ''b=2&a=1''"
      by (rule query_string_kept(1) [OF q _ w(1)]) simp
    with w show "\<exists>ws ws'.
      prepare example_signer_web
        (new_working_set query_request example_date
           (parseUrl example_platform (url query_request))) = Inr ws \<and>
      buildCanonicalRequest_web example_signer_web ws = Inr ws' \<and>
      query (ws_uri ws) = QueryString ''b=2&a=1'' \<and>
      canonicalRequest ws' =
        ''GET'' @ LF @ ''/p%3Fb%3D2%26a%3D1'' @ LF @
        ''0=b&1=%3D&2=2&3=%26&4=a&5=%3D&6=1'' @ LF @
        ''accept:application/json'' @ LF @ ''expect:100-continue'' @ LF @ ''host:h'' @ LF @
        ''x-amz-content-sha256:UNSIGNED-PAYLOAD'' @ LF @
        ''x-amz-date:20150830T123600Z'' @ LF @ LF @
        ''accept;expect;host;x-amz-content-sha256;x-amz-date'' @ LF @ ''UNSIGNED-PAYLOAD''"
      by blast
  qed
qed

subsection \<open>The payload hash\<close>

lemma map_of_prepared_headers:
  assumes "prepare self ws0 = Inr ws" and "k \<noteq> ''content-type''" and "k \<noteq> ''__proto__''"
  shows "\<exists>hs. headers (ws_request ws) = Some hs \<and>
           map_of hs k =
             (case map_of (normalized (case headers (ws_request ws0) of None \<Rightarrow> [] | Some h \<Rightarrow> h)) k of
                Some v \<Rightarrow> Some v
              | None \<Rightarrow> map_of (snd (payload_or_not self ws0)) k)"
  using prepare_headers [OF assms(1)] assms(2,3)
  by (auto simp: map_of_strip_content_type map_of_extend_normalized)

lemma base_no_sha256: "map_of (snd (payload_or_not self ws)) ''x-amz-content-sha256'' = None"
  by (auto simp: payload_or_not_def base_headers_def split: option.splits)

lemma payloadHash_web:
  "payloadHash (Some h) hs pl =
     Inr (if map_of hs ''x-amz-content-sha256'' = Some (Str ''UNSIGNED-PAYLOAD'')
          then ''UNSIGNED-PAYLOAD''
          else hash h (case pl of None \<Rightarrow> [] | Some bytes \<Rightarrow> bytes))"
  by (cases pl) (auto simp: payloadHash_def)

text \<open>
  C5. In \<^verbatim>\<open>aws-sign-web.js\<close> the payload is hashed through \<^verbatim>\<open>this.hasher\<close>, which is
  undefined in \<^verbatim>\<open>buildCanonicalRequest\<close>: unless the headers set
  \<^verbatim>\<open>x-amz-content-sha256\<close> to \<^verbatim>\<open>UNSIGNED-PAYLOAD\<close>, \<^verbatim>\<open>sign\<close> throws a TypeError. The
  CryptoJS variant hashes through \<^verbatim>\<open>self.hasher\<close> (lemma \<open>payloadHash_web\<close>).
\<close>

theorem sign_throws_unless_unsigned:
  assumes "map_of (normalized (case headers req of None \<Rightarrow> [] | Some h \<Rightarrow> h))
             ''x-amz-content-sha256'' \<noteq> Some (Str ''UNSIGNED-PAYLOAD'')"
  shows "sign P self req date = Inl TypeError"
proof (cases "prepare self (new_working_set req (case date of Some d \<Rightarrow> d | None \<Rightarrow> now P)
    (parseUrl P (url req)))")
  case (Inl e)
  then have "e = TypeError"
    by (auto simp: prepare_def Let_def split_beta split: option.splits)
  with Inl show ?thesis by (simp add: sign_def)
next
  case (Inr ws)
  from map_of_prepared_headers [OF Inr, of "''x-amz-content-sha256''"]
  obtain hs where hs: "headers (ws_request ws) = Some hs"
    "map_of hs ''x-amz-content-sha256'' \<noteq> Some (Str ''UNSIGNED-PAYLOAD'')"
    using assms by (auto simp: base_no_sha256 new_working_set_def split: option.splits)
  then have "buildCanonicalRequest None self ws = Inl TypeError"
    by (auto simp: buildCanonicalRequest_def payloadHash_def Let_def split: option.splits)
  with Inr show ?thesis by (simp add: sign_def)
qed

theorem sign_throws_unless_unsigned_witness:
  "sign example_platform example_signer example_request (Some example_date) = Inl TypeError"
  by (rule sign_throws_unless_unsigned)
    (simp add: example_request_def normalized_def reduce_normalized_def)

subsection \<open>The result of sign\<close>

lemma sign_Inr:
  assumes "sign P self req date = Inr out"
  shows "\<exists>ws1 ws2.
     prepare self (new_working_set req (case date of Some d \<Rightarrow> d | None \<Rightarrow> now P)
       (parseUrl P (url req))) = Inr ws1 \<and>
     buildCanonicalRequest None self ws1 = Inr ws2 \<and>
     out = result_headers self (buildSignatureHeader self (calculateSignature P self
             (buildStringToSign self ws2)))"
  using assms by (auto simp: sign_def Let_def split: sum.splits)

lemma sign_web_Inr:
  assumes "sign_web P self req date = Inr out"
  shows "\<exists>ws1 ws2 ws4.
     prepare self (new_working_set req (case date of Some d \<Rightarrow> d | None \<Rightarrow> now P)
       (parseUrl P (url req))) = Inr ws1 \<and>
     buildCanonicalRequest_web self ws1 = Inr ws2 \<and>
     calculateSignature_web self (buildStringToSign_web self ws2) = Inr ws4 \<and>
     out = result_headers self (buildSignatureHeader self ws4)"
  using assms by (auto simp: sign_web_def Let_def split: sum.splits)

lemma buildCanonicalRequest_frame:
  "buildCanonicalRequest th self ws = Inr ws' \<Longrightarrow>
   ws_request ws' = ws_request ws \<and> signDate ws' = signDate ws"
  by (auto simp: buildCanonicalRequest_def Let_def split: option.splits sum.splits)

lemma buildCanonicalRequest_web_frame:
  "buildCanonicalRequest_web self ws = Inr ws' \<Longrightarrow>
   ws_request ws' = ws_request ws \<and> signDate ws' = signDate ws"
  by (auto simp: buildCanonicalRequest_web_def Let_def split: option.splits sum.splits)

lemma calculateSignature_web_frame:
  "calculateSignature_web self ws = Inr ws' \<Longrightarrow>
   ws_request ws' = ws_request ws \<and> signDate ws' = signDate ws \<and>
   credentialScope ws' = credentialScope ws"
  by (auto simp: calculateSignature_web_def Let_def split: option.splits)

lemma result_of_pipeline:
  "result_headers self (buildSignatureHeader self (calculateSignature P self
      (buildStringToSign self ws))) =
   result_headers self ws
     \<lparr>out_authorization :=
        ''AWS4-HMAC-SHA256 Credential='' @ string_of (accessKeyId (self_config self)) @ ''/'' @
        amzDate (signDate ws) True @ ''/'' @ region (self_config self) @ ''/'' @
        service (self_config self) @ ''/aws4_request, SignedHeaders='' @ signedHeaders ws @
        '', Signature='' @
        signature (calculateSignature P self (buildStringToSign self ws))\<rparr>"
  by (simp add: result_headers_def buildSignatureHeader_def calculateSignature_def
      buildStringToSign_def Let_def)

lemma result_of_pipeline_web:
  assumes "calculateSignature_web self (buildStringToSign_web self ws) = Inr ws4"
  shows "result_headers self (buildSignatureHeader self ws4) =
   result_headers self ws
     \<lparr>out_authorization :=
        ''AWS4-HMAC-SHA256 Credential='' @ string_of (accessKeyId (self_config self)) @ ''/'' @
        amzDate (signDate ws) True @ ''/'' @ region (self_config self) @ ''/'' @
        service (self_config self) @ ''/aws4_request, SignedHeaders='' @ signedHeaders ws @
        '', Signature='' @ signature ws4\<rparr>"
  using assms
  by (auto simp: result_headers_def buildSignatureHeader_def calculateSignature_web_def
      buildStringToSign_web_def Let_def split: option.splits)

lemma sign_result:
  assumes "sign P self req date = Inr out \<or> sign_web P self req date = Inr out"
  shows "\<exists>ws hs sh sg.
     prepare self (new_working_set req (case date of Some d \<Rightarrow> d | None \<Rightarrow> now P)
       (parseUrl P (url req))) = Inr ws \<and>
     headers (ws_request ws) = Some hs \<and>
     out_accept out = map_of hs ''accept'' \<and>
     out_expect out = map_of hs ''expect'' \<and>
     out_content_type out = map_of hs ''content-type'' \<and>
     out_content_length out = map_of hs ''content-length'' \<and>
     out_x_amz_date out = map_of hs ''x-amz-date'' \<and>
     out_x_amz_security_token out =
       (if truthy_string (sessionToken (self_config self)) then sessionToken (self_config self)
        else None) \<and>
     out_authorization out =
        ''AWS4-HMAC-SHA256 Credential='' @ string_of (accessKeyId (self_config self)) @ ''/'' @
        amzDate (case date of Some d \<Rightarrow> d | None \<Rightarrow> now P) True @ ''/'' @
        region (self_config self) @ ''/'' @
        service (self_config self) @ ''/aws4_request, SignedHeaders='' @ sh @
        '', Signature='' @ sg"
proof -
  let ?d = "case date of Some d \<Rightarrow> d | None \<Rightarrow> now P"
  let ?ws0 = "new_working_set req ?d (parseUrl P (url req))"
  have d0: "signDate ?ws0 = ?d"
    by (simp add: new_working_set_def)
  from assms show ?thesis
  proof
    assume "sign P self req date = Inr out"
    from sign_Inr [OF this] obtain ws1 ws2 where
      w: "prepare self ?ws0 = Inr ws1" "buildCanonicalRequest None self ws1 = Inr ws2"
        "out = result_headers self (buildSignatureHeader self (calculateSignature P self
             (buildStringToSign self ws2)))"
      by blast
    from prepare_headers [OF w(1)] obtain hs where hs: "headers (ws_request ws1) = Some hs"
      by blast
    have f: "ws_request ws2 = ws_request ws1" "signDate ws2 = ?d"
      using buildCanonicalRequest_frame [OF w(2)] prepare_signDate [OF w(1)] d0 by simp_all
    show ?thesis
      using w(1) hs f unfolding w(3) result_of_pipeline
      by (auto simp: result_headers_def)
  next
    assume "sign_web P self req date = Inr out"
    from sign_web_Inr [OF this] obtain ws1 ws2 ws4 where
      w: "prepare self ?ws0 = Inr ws1" "buildCanonicalRequest_web self ws1 = Inr ws2"
        "calculateSignature_web self (buildStringToSign_web self ws2) = Inr ws4"
        "out = result_headers self (buildSignatureHeader self ws4)"
      by blast
    from prepare_headers [OF w(1)] obtain hs where hs: "headers (ws_request ws1) = Some hs"
      by blast
    have f: "ws_request ws2 = ws_request ws1" "signDate ws2 = ?d"
      using buildCanonicalRequest_web_frame [OF w(2)] prepare_signDate [OF w(1)] d0 by simp_all
    show ?thesis
      using w(1) hs f unfolding w(4) result_of_pipeline_web [OF w(3)]
      by (auto simp: result_headers_def)
  qed
qed


lemma no_key_normalized:
  "\<forall>k \<in> fst ` set hs. toLowerCase k \<noteq> name \<Longrightarrow> map_of (normalized hs) name = None"
  by (rule normalized_None)

lemma bodiless_payload_or_not:
  "body (ws_request ws) = None \<Longrightarrow> data (ws_request ws) = None \<Longrightarrow>
   payload_or_not self ws = (payload ws, AList.delete ''content-type'' (base_headers self ws))"
  by (simp add: payload_or_not_def)

lemma base_x_amz_date:
  "map_of (snd (payload_or_not self ws)) ''x-amz-date'' = Some (Str (amzDate (signDate ws) False))"
  by (auto simp: payload_or_not_def base_headers_def split: option.splits)

text \<open>
  C9, as amended. For a request with neither a body nor data and without a
  \<^verbatim>\<open>content-type\<close> header of its own (under any capitalisation), whenever \<^verbatim>\<open>sign\<close> of
  either source file returns, the result has no \<^verbatim>\<open>content-type\<close>, it has an
  \<^verbatim>\<open>x-amz-date\<close>, which is the long date of the signing time unless the request has an
  \<^verbatim>\<open>x-amz-date\<close> header of its own, and it has an \<^verbatim>\<open>authorization\<close> value with the
  credential scope of the signing date.
\<close>

theorem bodiless_request_headers:
  assumes "sign P self req date = Inr out \<or> sign_web P self req date = Inr out"
    and "body req = None" and "data req = None"
    and "\<forall>k \<in> fst ` set (case headers req of None \<Rightarrow> [] | Some h \<Rightarrow> h).
           toLowerCase k \<noteq> ''content-type''"
  shows "out_content_type out = None \<and>
         out_x_amz_date out \<noteq> None \<and>
         ((\<forall>k \<in> fst ` set (case headers req of None \<Rightarrow> [] | Some h \<Rightarrow> h).
             toLowerCase k \<noteq> ''x-amz-date'') \<longrightarrow>
          out_x_amz_date out =
            Some (Str (amzDate (case date of Some d \<Rightarrow> d | None \<Rightarrow> now P) False))) \<and>
         (\<exists>sh sg. out_authorization out =
            ''AWS4-HMAC-SHA256 Credential='' @ string_of (accessKeyId (self_config self)) @
            ''/'' @ amzDate (case date of Some d \<Rightarrow> d | None \<Rightarrow> now P) True @ ''/'' @
            region (self_config self) @ ''/'' @ service (self_config self) @
            ''/aws4_request, SignedHeaders='' @ sh @ '', Signature='' @ sg)"
proof -
  let ?d = "case date of Some d \<Rightarrow> d | None \<Rightarrow> now P"
  let ?ws0 = "new_working_set req ?d (parseUrl P (url req))"
  let ?caller = "case headers req of None \<Rightarrow> [] | Some h \<Rightarrow> h"
  have r0: "ws_request ?ws0 = req" "signDate ?ws0 = ?d"
    by (simp_all add: new_working_set_def)
  from sign_result [OF assms(1)] obtain ws hs sh sg where
    w: "prepare self ?ws0 = Inr ws" "headers (ws_request ws) = Some hs"
      "out_content_type out = map_of hs ''content-type''"
      "out_x_amz_date out = map_of hs ''x-amz-date''"
      "out_authorization out =
        ''AWS4-HMAC-SHA256 Credential='' @ string_of (accessKeyId (self_config self)) @ ''/'' @
        amzDate ?d True @ ''/'' @ region (self_config self) @ ''/'' @
        service (self_config self) @ ''/aws4_request, SignedHeaders='' @ sh @
        '', Signature='' @ sg"
    by blast
  from prepare_headers [OF w(1)] w(2)
  have hs: "hs = strip_content_type (extend_obj (snd (payload_or_not self ?ws0))
      (normalized ?caller))"
    by (simp add: r0)
  have pn: "snd (payload_or_not self ?ws0) = AList.delete ''content-type'' (base_headers self ?ws0)"
    using assms(2,3) by (simp add: bodiless_payload_or_not r0)
  have "map_of (extend_obj (snd (payload_or_not self ?ws0)) (normalized ?caller))
      ''content-type'' = None"
    unfolding pn
    by (simp add: map_of_extend_normalized no_key_normalized [OF assms(4)] AList.delete_conv')
  then have ct: "map_of hs ''content-type'' = None"
    unfolding hs by (simp add: strip_content_type_None)
  have xd: "map_of hs ''x-amz-date'' =
      (case map_of (normalized ?caller) ''x-amz-date'' of
         Some v \<Rightarrow> Some v
       | None \<Rightarrow> Some (Str (amzDate ?d False)))"
    unfolding hs
    by (simp add: map_of_strip_content_type map_of_extend_normalized base_x_amz_date r0
        split: option.splits)
  have 2: "out_x_amz_date out \<noteq> None"
    unfolding w(4) xd by (simp split: option.splits)
  have 3: "(\<forall>k \<in> fst ` set ?caller. toLowerCase k \<noteq> ''x-amz-date'') \<longrightarrow>
      out_x_amz_date out = Some (Str (amzDate ?d False))"
    unfolding w(4) xd by (auto simp: no_key_normalized)
  from ct 2 3 w(3,5) show ?thesis by auto
qed

lemma bang_sign:
  "\<exists>out. sign example_platform example_signer bang_request (Some example_date) = Inr out"
proof -
  from step1_Inr [OF bang_canonical] obtain ws ws' where
    "prepare example_signer
       (new_working_set bang_request example_date
          (parseUrl example_platform (url bang_request))) = Inr ws"
    "buildCanonicalRequest None example_signer ws = Inr ws'"
    by blast
  then show ?thesis by (simp add: sign_def)
qed

theorem bodiless_request_headers_witness:
  "\<exists>out. sign example_platform example_signer bang_request (Some example_date) = Inr out \<and>
     body bang_request = None \<and> data bang_request = None \<and>
     out_content_type out = None \<and>
     out_x_amz_date out = Some (Str ''20150830T123600Z'') \<and>
     (\<exists>sh sg. out_authorization out =
        ''AWS4-HMAC-SHA256 Credential=AKIDEXAMPLE/20150830/eu-west-1/execute-api'' @
        ''/aws4_request, SignedHeaders='' @ sh @ '', Signature='' @ sg)"
proof -
  from bang_sign obtain out where
    s: "sign example_platform example_signer bang_request (Some example_date) = Inr out"
    by blast
  have b: "body bang_request = None" "data bang_request = None"
    by (simp_all add: bang_request_def)
  have h: "\<forall>k \<in> fst ` set (case headers bang_request of None \<Rightarrow> [] | Some h \<Rightarrow> h).
           toLowerCase k \<noteq> ''content-type''"
    by (simp add: bang_request_def example_case_mapping)
  have h': "\<forall>k \<in> fst ` set (case headers bang_request of None \<Rightarrow> [] | Some h \<Rightarrow> h).
           toLowerCase k \<noteq> ''x-amz-date''"
    by (simp add: bang_request_def example_case_mapping)
  have c: "string_of (accessKeyId (self_config example_signer)) = ''AKIDEXAMPLE''"
    "region (self_config example_signer) = ''eu-west-1''"
    "service (self_config example_signer) = ''execute-api''"
    by (simp_all add: example_defs)
  from bodiless_request_headers [OF disjI1 [OF s] b h] h'
  have "out_content_type out = None \<and>
     out_x_amz_date out = Some (Str ''20150830T123600Z'') \<and>
     (\<exists>sh sg. out_authorization out =
        ''AWS4-HMAC-SHA256 Credential=AKIDEXAMPLE/20150830/eu-west-1/execute-api'' @
        ''/aws4_request, SignedHeaders='' @ sh @ '', Signature='' @ sg)"
    by (simp add: c example_amzDate)
  with s b show ?thesis by blast
qed

lemma typed_canonical:
  "(case prepare example_signer
           (new_working_set typed_request example_date
              (parseUrl example_platform (url typed_request))) of
      Inl e \<Rightarrow> Inl e
    | Inr ws \<Rightarrow> map_sum id canonicalRequest (buildCanonicalRequest None example_signer ws)) =
   Inr (''GET'' @ LF @ ''/'' @ LF @ [] @ LF @
        ''accept:application/json'' @ LF @ ''content-type:text/plain'' @ LF @
        ''expect:100-continue'' @ LF @ ''host:h'' @ LF @
        ''x-amz-content-sha256:UNSIGNED-PAYLOAD'' @ LF @
        ''x-amz-date:yesterday'' @ LF @ LF @
        ''accept;content-type;expect;host;x-amz-content-sha256;x-amz-date'' @ LF @
        ''UNSIGNED-PAYLOAD'')"
  by (simp add: pipeline_defs component_defs example_defs typed_request_def example_amzDate
      Let_def example_case_mapping base_keys_lower)
    code_simp

text \<open>
  A request without body and data whose headers name a content type and a date: the
  result carries the caller's content type, without its parameters, and the caller's
  date.
\<close>

theorem bodiless_content_type_counterexample:
  "body typed_request = None \<and> data typed_request = None \<and>
   map_sum id out_content_type
     (sign example_platform example_signer typed_request (Some example_date)) =
     Inr (Some (Str ''text/plain'')) \<and>
   map_sum id out_x_amz_date
     (sign example_platform example_signer typed_request (Some example_date)) =
     Inr (Some (Str ''yesterday''))"
proof -
  from step1_Inr [OF typed_canonical] obtain ws ws' where
    w: "prepare example_signer
       (new_working_set typed_request example_date
          (parseUrl example_platform (url typed_request))) = Inr ws"
      "buildCanonicalRequest None example_signer ws = Inr ws'"
    by blast
  then obtain out where
    s: "sign example_platform example_signer typed_request (Some example_date) = Inr out"
    by (simp add: sign_def)
  from sign_result [OF disjI1 [OF s]] w(1) obtain hs where
    hs: "headers (ws_request ws) = Some hs" "out_content_type out = map_of hs ''content-type''"
      "out_x_amz_date out = map_of hs ''x-amz-date''"
    by auto
  from w(1) hs(1) have "map_of hs ''content-type'' = Some (Str ''text/plain'')"
    "map_of hs ''x-amz-date'' = Some (Str ''yesterday'')"
    by (auto simp: pipeline_defs example_defs typed_request_def example_amzDate Let_def
        example_case_mapping base_keys_lower)
  with s hs show ?thesis
    by (simp add: typed_request_def)
qed

subsection \<open>The store\<close>

subsection \<open>Preservation rules\<close>

lemma extends_length: "extends old h \<Longrightarrow> length old \<le> length h"
  by (metis extends_def length_take min.cobounded1)

lemma extends_refl: "extends h h"
  by (simp add: extends_def)

lemma extends_old_cell: "extends old h \<Longrightarrow> a < length old \<Longrightarrow> h ! a = old ! a"
  by (metis extends_def nth_take)

lemma preserves_return: "Q x \<Longrightarrow> preserves old (return x) Q"
  by (simp add: preserves_def return_def)

lemma preserves_throw: "preserves old (throw e) Q"
  by (simp add: preserves_def throw_def)

lemma preserves_bind:
  assumes "preserves old m Q" and "\<And>x. Q x \<Longrightarrow> preserves old (f x) R"
  shows "preserves old (bind m f) R"
  unfolding preserves_def bind_def
proof (intro allI impI)
  fix h x h'
  assume e: "extends old h"
    and r: "(case m h of Inl e \<Rightarrow> Inl e | Inr (y, h1) \<Rightarrow> f y h1) = Inr (x, h')"
  then obtain y h1 where m: "m h = Inr (y, h1)" and f: "f y h1 = Inr (x, h')"
    by (auto split: sum.splits)
  from assms(1) e m have "extends old h1" "Q y"
    by (auto simp: preserves_def)
  with assms(2) f show "extends old h' \<and> R x"
    by (auto simp: preserves_def)
qed

lemma preserves_seq:
  "preserves old m Q \<Longrightarrow> preserves old k R \<Longrightarrow> preserves old (seq m k) R"
  unfolding seq_def by (rule preserves_bind)

lemma preserves_weaken:
  "preserves old m Q \<Longrightarrow> (\<And>x. Q x \<Longrightarrow> R x) \<Longrightarrow> preserves old m R"
  by (auto simp: preserves_def)

lemma preserves_if:
  "(c \<Longrightarrow> preserves old m Q) \<Longrightarrow> (\<not> c \<Longrightarrow> preserves old k Q) \<Longrightarrow>
   preserves old (if c then m else k) Q"
  by simp

lemma new_val_simps [simp]:
  "new_val n VUndefined" "new_val n VNull" "new_val n (VStr s)" "new_val n (VJson j)"
  "new_val n (VDate d)" "new_val n (VKeys ks)" "new_val n (VSerializer f)"
  "new_val n (VHasher hh)" "new_val n (Ref a) = (n \<le> a)"
  by (simp_all add: new_val_def)

lemma not_ref_new: "\<not> is_ref v \<Longrightarrow> new_val n v"
  by (cases v) simp_all

lemma new_lookup: "\<forall>v \<in> snd ` set obj. new_val n v \<Longrightarrow> new_val n (lookup obj k)"
  by (auto simp: lookup_def split: option.splits dest!: map_of_SomeD)

lemma new_string_entries: "v \<in> snd ` set (string_entries s) \<Longrightarrow> new_val n v"
  by (auto simp: string_entries_def dest!: set_zip_rightD)

lemma preserves_alloc:
  assumes "\<forall>v \<in> snd ` set obj. new_val (length old) v"
  shows "preserves old (alloc obj) (new_val (length old))"
  unfolding preserves_def alloc_def
proof (intro allI impI)
  fix h x h'
  assume e: "extends old h" and r: "Inr (Ref (length h), h @ [obj]) = Inr (x, h')"
  then have x: "x = Ref (length h)" and h': "h' = h @ [obj]"
    by simp_all
  have l: "length old \<le> length h"
    by (rule extends_length [OF e])
  have "extends old (h @ [obj])"
    using e l assms by (auto simp: extends_def nth_append)
  with x h' l show "extends old h' \<and> new_val (length old) x"
    by simp
qed

lemma preserves_get: "new_val (length old) v \<Longrightarrow> preserves old (get v k) (new_val (length old))"
  unfolding preserves_def get_def
  by (cases v)
    (auto simp: extends_def new_lookup new_string_entries split: if_splits
      intro!: new_lookup)

lemma preserves_get_any: "preserves old (get v k) (\<lambda>_. True)"
  unfolding preserves_def get_def
  by (cases v) (auto split: if_splits)

lemma preserves_get_old:
  "a < length old \<Longrightarrow> preserves old (get (Ref a) k) (\<lambda>x. x = lookup (old ! a) k)"
  unfolding preserves_def get_def
  by (auto simp: extends_old_cell split: if_splits)

lemma preserves_objectKeys: "preserves old (objectKeys v) (\<lambda>_. True)"
  unfolding preserves_def objectKeys_def
  by (cases v) (auto split: if_splits)

lemma extends_update:
  assumes "extends old h" and "length old \<le> a" and "a < length h"
    and "\<forall>v \<in> snd ` set obj. new_val (length old) v"
  shows "extends old (h[a := obj])"
  using assms by (auto simp: extends_def nth_list_update)

lemma values_update: "snd ` set (AList.update k x al) \<subseteq> insert x (snd ` set al)"
  by (induction al) auto

lemma values_delete: "snd ` set (AList.delete k al) \<subseteq> snd ` set al"
  by (induction al) auto

lemma preserves_put:
  assumes "new_val (length old) v" and "new_val (length old) x"
  shows "preserves old (put v k x) (\<lambda>_. True)"
  unfolding preserves_def put_def
proof (intro allI impI)
  fix h u h'
  assume e: "extends old h"
    and r: "(case v of
        Ref a \<Rightarrow>
          if a < length h then Inr ((), h[a := AList.update k x (h ! a)]) else Inl TypeError
      | VUndefined \<Rightarrow> Inl TypeError
      | VNull \<Rightarrow> Inl TypeError
      | _ \<Rightarrow> Inr ((), h)) = Inr (u, h')"
  show "extends old h' \<and> True"
  proof (cases v)
    case (Ref a)
    with r have a: "a < length h" and h': "h' = h[a := AList.update k x (h ! a)]"
      by (auto split: if_splits)
    from assms(1) Ref have n: "length old \<le> a"
      by simp
    have "\<forall>v \<in> snd ` set (h ! a). new_val (length old) v"
      using e n a by (simp add: extends_def)
    then have "\<forall>v \<in> insert x (snd ` set (h ! a)). new_val (length old) v"
      using assms(2) by simp
    then have "\<forall>v \<in> snd ` set (AList.update k x (h ! a)). new_val (length old) v"
      using values_update [of k x "h ! a"] by blast
    from extends_update [OF e n a this] h' show ?thesis
      by simp
  qed (use r e in auto)
qed

lemma preserves_delete_property:
  assumes "new_val (length old) v"
  shows "preserves old (delete_property v k) (\<lambda>_. True)"
  unfolding preserves_def delete_property_def
proof (intro allI impI)
  fix h u h'
  assume e: "extends old h"
    and r: "(case v of
        Ref a \<Rightarrow> if a < length h then Inr ((), h[a := AList.delete k (h ! a)]) else Inl TypeError
      | VUndefined \<Rightarrow> Inl TypeError
      | VNull \<Rightarrow> Inl TypeError
      | _ \<Rightarrow> Inr ((), h)) = Inr (u, h')"
  show "extends old h' \<and> True"
  proof (cases v)
    case (Ref a)
    with r have a: "a < length h" and h': "h' = h[a := AList.delete k (h ! a)]"
      by (auto split: if_splits)
    from assms(1) Ref have n: "length old \<le> a"
      by simp
    have "\<forall>v \<in> snd ` set (h ! a). new_val (length old) v"
      using e n a by (simp add: extends_def)
    then have "\<forall>v \<in> snd ` set (AList.delete k (h ! a)). new_val (length old) v"
      using values_delete [of k "h ! a"] by blast
    from extends_update [OF e n a this] h' show ?thesis
      by simp
  qed (use r e in auto)
qed

lemma preserves_forEach:
  "(\<And>x. preserves old (f x) (\<lambda>_. True)) \<Longrightarrow> preserves old (forEach f xs) (\<lambda>_. True)"
  by (induction xs) (auto intro: preserves_return preserves_seq)

lemma preserves_mapM:
  "(\<And>x. preserves old (f x) (\<lambda>_. True)) \<Longrightarrow> preserves old (mapM f xs) (\<lambda>_. True)"
  by (induction xs) (auto intro!: preserves_return preserves_bind)

lemma preserves_safeGetProperty:
  "new_val (length old) v \<Longrightarrow> preserves old (safeGetProperty v k) (new_val (length old))"
  by (simp add: safeGetProperty_def preserves_get preserves_return)

lemma preserves_safeGetProperty_any: "preserves old (safeGetProperty v k) (\<lambda>_. True)"
  by (simp add: safeGetProperty_def preserves_get_any preserves_return)

lemma preserves_assign:
  assumes "new_val (length old) v" and "new_val (length old) x"
  shows "preserves old (assign v k x) (\<lambda>_. True)"
proof (cases "k = ''__proto__''")
  case True
  then show ?thesis
    by (cases v) (simp_all add: assign_def preserves_return preserves_throw)
next
  case False
  then show ?thesis
    by (simp add: assign_def preserves_put [OF assms])
qed

lemma preserves_reduce_normalized_h:
  assumes "new_val (length old) rh" and "new_val (length old) norm"
  shows "preserves old (reduce_normalized_h ks rh norm inherits) (\<lambda>_. True)"
proof (induction ks arbitrary: inherits)
  case Nil
  show ?case by (simp add: preserves_return)
next
  case (Cons key ks)
  show ?case
    apply simp
    apply (rule preserves_bind [OF preserves_get [OF assms(1)]])
    apply (rule preserves_if)
     apply (rule Cons.IH)
    apply (rule preserves_seq [OF preserves_put [OF assms(2)]])
     apply assumption
    apply (rule Cons.IH)
    done
qed

lemma preserves_deepExtend:
  "new_val (length old) target \<Longrightarrow> preserves old (deepExtend d target obj) (\<lambda>_. True)"
proof (induction d arbitrary: target obj)
  case 0
  show ?case by (simp add: preserves_throw)
next
  case (Suc d)
  show ?case
    apply simp
    apply (intro conjI impI preserves_return preserves_bind [OF preserves_objectKeys]
        preserves_forEach TrueI)
    apply (rule preserves_bind [OF preserves_safeGetProperty [OF Suc.prems]])
    apply (rule preserves_bind [OF preserves_safeGetProperty_any])
    apply (intro preserves_if preserves_return TrueI)
     apply (rule preserves_assign [OF Suc.prems])
     apply (simp add: not_ref_new)
     apply (rule preserves_seq [OF Suc.IH])
      apply assumption
     apply (rule preserves_assign [OF Suc.prems])
     apply assumption
    apply (rule preserves_bind [OF preserves_alloc])
     apply simp
    apply (rule preserves_seq [OF Suc.IH])
     apply assumption
    apply (rule preserves_assign [OF Suc.prems])
    apply assumption
    done
qed

lemma preserves_get_prim:
  assumes "a < length old" and "list_all (\<lambda>(k, v). \<not> is_ref v) (old ! a)"
  shows "preserves old (get (Ref a) k) (new_val (length old))"
proof (rule preserves_weaken [OF preserves_get_old [OF assms(1)]])
  fix x
  assume "x = lookup (old ! a) k"
  moreover have "\<forall>v \<in> snd ` set (old ! a). new_val (length old) v"
    using assms(2) by (fastforce simp: list_all_iff intro: not_ref_new)
  ultimately show "new_val (length old) x"
    by (simp add: new_lookup)
qed

lemma signer_objectD:
  assumes "signer_object old this"
  obtains t c where "this = Ref t" "t < length old" "lookup (old ! t) ''config'' = Ref c"
    "c < length old" "list_all (\<lambda>(k, v). \<not> is_ref v) (old ! c)"
  using assms by (auto simp: signer_object_def split: val.splits)

lemma preserves_string_method: "preserves old (string_method v) (\<lambda>_. True)"
  by (cases v) (simp_all add: string_method_def preserves_return preserves_throw)

lemma preserves_date_of: "preserves old (date_of v) (\<lambda>_. True)"
  by (cases v) (simp_all add: date_of_def preserves_return preserves_throw)

text \<open>One rule for every kind of statement.\<close>

lemma bind_get_new:
  "new_val (length old) v \<Longrightarrow> (\<And>x. new_val (length old) x \<Longrightarrow> preserves old (f x) R) \<Longrightarrow>
   preserves old (bind (get v k) f) R"
  by (rule preserves_bind [OF preserves_get])

lemma bind_get_any:
  "(\<And>x. preserves old (f x) R) \<Longrightarrow> preserves old (bind (get v k) f) R"
  by (rule preserves_bind [OF preserves_get_any])

lemma bind_get_old:
  "a < length old \<Longrightarrow> preserves old (f (lookup (old ! a) k)) R \<Longrightarrow>
   preserves old (bind (get (Ref a) k) f) R"
  by (rule preserves_bind [OF preserves_get_old]) simp_all

lemma bind_get_prim:
  "a < length old \<Longrightarrow> list_all (\<lambda>(k, v). \<not> is_ref v) (old ! a) \<Longrightarrow>
   (\<And>x. new_val (length old) x \<Longrightarrow> preserves old (f x) R) \<Longrightarrow>
   preserves old (bind (get (Ref a) k) f) R"
  by (rule preserves_bind [OF preserves_get_prim])

lemma bind_get_string:
  "(\<And>s. preserves old (f s) R) \<Longrightarrow> preserves old (bind (bind (get v k) string_method) f) R"
  by (rule preserves_bind [OF preserves_bind [OF preserves_get_any preserves_string_method]])

lemma bind_get_date:
  "(\<And>d. preserves old (f d) R) \<Longrightarrow> preserves old (bind (bind (get v k) date_of) f) R"
  by (rule preserves_bind [OF preserves_bind [OF preserves_get_any preserves_date_of]])

lemma bind_alloc:
  "\<forall>v \<in> snd ` set obj. new_val (length old) v \<Longrightarrow>
   (\<And>x. new_val (length old) x \<Longrightarrow> preserves old (f x) R) \<Longrightarrow>
   preserves old (bind (alloc obj) f) R"
  by (rule preserves_bind [OF preserves_alloc])

lemma bind_objectKeys:
  "(\<And>ks. preserves old (f ks) R) \<Longrightarrow> preserves old (bind (objectKeys v) f) R"
  by (rule preserves_bind [OF preserves_objectKeys])

lemma seq_put:
  "new_val (length old) v \<Longrightarrow> new_val (length old) x \<Longrightarrow> preserves old k R \<Longrightarrow>
   preserves old (seq (put v p x) k) R"
  by (rule preserves_seq [OF preserves_put])

lemma seq_deepExtend:
  "new_val (length old) target \<Longrightarrow> preserves old k R \<Longrightarrow>
   preserves old (seq (deepExtend d target obj) k) R"
  by (rule preserves_seq [OF preserves_deepExtend])

lemma preserves_prepare_h:
  assumes s: "signer_object old self" and w: "new_val (length old) ws"
  shows "preserves old (prepare_h depth self ws) (\<lambda>_. True)"
proof -
  from s obtain t c where
    t: "self = Ref t" "t < length old" "lookup (old ! t) ''config'' = Ref c"
      "c < length old" "list_all (\<lambda>(k, v). \<not> is_ref v) (old ! c)"
    by (rule signer_objectD)
  show ?thesis
    unfolding prepare_h_def t(1)
    apply (rule bind_get_new [OF w])
    apply (rule bind_get_new, assumption)
    apply (rule bind_get_old [OF t(2)])
    apply (simp only: t(3))
    apply (rule bind_get_prim [OF t(4,5)])
    apply (rule bind_get_prim [OF t(4,5)])
    apply (rule bind_get_prim [OF t(4,5)])
    apply (rule bind_get_date)
    apply (rule bind_alloc)
     apply simp
    apply (rule bind_get_new [OF w])
    apply (rule bind_get_string)
    apply (rule seq_put, assumption, simp)
    apply (rule bind_get_new, assumption)
    apply (rule bind_get_new, assumption)
    apply (rule bind_get_any)
    apply (rule preserves_seq [where Q = "\<lambda>_. True"])
     apply (auto intro!: preserves_put preserves_delete_property preserves_throw w
        split: val.splits)[1]
    apply (rule bind_get_new, assumption)
    apply (rule bind_alloc)
     apply simp
    apply (rule preserves_seq [where Q = "\<lambda>_. True"])
     apply (auto intro!: preserves_return bind_objectKeys preserves_reduce_normalized_h)[1]
    apply (rule seq_deepExtend, assumption)
    apply (rule seq_put, assumption, assumption)
    apply (rule bind_objectKeys)
    apply (rule seq_put [OF w], simp)
    apply (rule bind_get_new, assumption)
    apply (rule preserves_seq [where Q = "\<lambda>_. True"])
     apply (auto intro!: preserves_return preserves_bind [OF preserves_string_method]
        preserves_put)[1]
    apply (rule bind_get_new, assumption)
    apply (auto intro!: preserves_return bind_get_new preserves_deepExtend)
    done
qed


lemma preserves_payloadHash_h:
  "new_val (length old) hdrs \<Longrightarrow> new_val (length old) ws \<Longrightarrow>
   preserves old (payloadHash_h the_hasher hdrs ws) (\<lambda>_. True)"
  unfolding payloadHash_h_def
  by (auto intro!: bind_get_new preserves_return preserves_throw split: val.splits)

lemma preserves_buildCanonicalRequest_h:
  assumes w: "new_val (length old) ws"
  shows "preserves old (buildCanonicalRequest_h web this_hasher self ws) (\<lambda>_. True)"
  unfolding buildCanonicalRequest_h_def
  apply (rule bind_get_new [OF w])
  apply (rule preserves_bind [where Q = "\<lambda>_. True"])
   apply (simp add: preserves_return preserves_throw split: val.splits)
  apply (rule seq_put [OF w], simp)
  apply (rule bind_get_new [OF w])
  apply (rule bind_get_new, assumption)
  apply (rule preserves_bind [where Q = "\<lambda>_. True"])
   apply (simp add: preserves_return preserves_string_method)
  apply (rule bind_get_new [OF w])
  apply (rule bind_get_string)
  apply (rule bind_get_new, assumption)
  apply (rule bind_objectKeys)
  apply (rule preserves_bind [OF preserves_mapM])
   apply (rule bind_get_any)
   apply (rule preserves_return, simp)
  apply (rule bind_get_new, assumption)
  apply (rule preserves_bind [OF preserves_mapM])
   apply (rule bind_get_any)
   apply (rule preserves_return, simp)
  apply (rule bind_get_new [OF w])
  apply (rule preserves_bind [OF preserves_payloadHash_h [OF _ w]])
   apply assumption
  apply (rule preserves_put [OF w])
  apply simp
  done

lemma preserves_buildStringToSign_h:
  assumes w: "new_val (length old) ws"
  shows "preserves old (buildStringToSign_h self ws) (\<lambda>_. True)"
  unfolding buildStringToSign_h_def
  apply (rule bind_get_date)
  apply (rule bind_get_any)
  apply (rule bind_get_any)
  apply (rule bind_get_any)
  apply (rule seq_put [OF w], simp)
  apply (rule bind_get_any)
  apply (rule bind_get_any)
  apply (rule bind_get_any)
  apply (auto intro!: preserves_put preserves_throw w split: val.splits)
  done

lemma preserves_calculateSignature_h:
  assumes w: "new_val (length old) ws"
  shows "preserves old (calculateSignature_h P self ws) (\<lambda>_. True)"
  unfolding calculateSignature_h_def
  by (intro bind_get_any bind_get_date preserves_put w) simp

lemma preserves_calculateSignature_web_h:
  assumes w: "new_val (length old) ws"
  shows "preserves old (calculateSignature_web_h self ws) (\<lambda>_. True)"
  unfolding calculateSignature_web_h_def
  apply (rule bind_get_any)
  apply (rule preserves_bind [where Q = "\<lambda>_. True"])
   apply (simp add: preserves_return preserves_throw split: val.splits option.splits)
  apply (intro bind_get_any bind_get_date preserves_put w)
  apply simp
  done

lemma preserves_buildSignatureHeader_h:
  assumes w: "new_val (length old) ws"
  shows "preserves old (buildSignatureHeader_h self ws) (\<lambda>_. True)"
  unfolding buildSignatureHeader_h_def
  by (intro bind_get_any preserves_put w) simp

lemma preserves_sign_h:
  assumes s: "signer_object old this"
  shows "preserves old (sign_h P depth web this request date) (\<lambda>_. True)"
proof -
  from s obtain t c where
    t: "this = Ref t" "t < length old" "lookup (old ! t) ''config'' = Ref c"
      "c < length old" "list_all (\<lambda>(k, v). \<not> is_ref v) (old ! c)"
    by (rule signer_objectD)
  show ?thesis
    unfolding sign_h_def
    apply (rule bind_get_string)
    apply (rule bind_alloc)
     apply (simp split: option.splits)
    apply (rule bind_get_new, assumption)
    apply (rule preserves_seq [where Q = "\<lambda>_. True"])
     apply (auto intro!: preserves_return bind_alloc preserves_put)[1]
    apply (rule bind_alloc, simp)
    apply (rule seq_deepExtend, assumption)
    apply (rule bind_alloc, simp)
    apply (rule preserves_seq [OF preserves_prepare_h [OF s]], assumption)
    apply (rule preserves_bind [where Q = "\<lambda>_. True"])
     apply (simp add: preserves_return preserves_get_any)
    apply (rule preserves_seq [OF preserves_buildCanonicalRequest_h], assumption)
    apply (rule preserves_seq [OF preserves_buildStringToSign_h], assumption)
    apply (rule preserves_seq [where Q = "\<lambda>_. True"])
     apply (simp add: preserves_calculateSignature_h preserves_calculateSignature_web_h)
    apply (rule preserves_seq [OF preserves_buildSignatureHeader_h], assumption)
    apply (rule bind_get_new, assumption)
    apply (rule bind_get_new, assumption)
    apply (rule bind_get_new, assumption)
    apply (rule bind_get_new, assumption)
    apply (rule bind_get_new, assumption)
    apply (rule bind_get_new, assumption)
    apply (rule bind_get_new, assumption)
    apply (rule bind_get_new, assumption)
    apply (simp only: t(1))
    apply (rule bind_get_old [OF t(2)])
    apply (simp only: t(3))
    apply (rule bind_get_prim [OF t(4,5)])
    apply (rule preserves_weaken [OF preserves_alloc])
     apply simp_all
    done
qed

lemma preservesD:
  "preserves old m Q \<Longrightarrow> extends old h \<Longrightarrow> m h = Inr (x, h') \<Longrightarrow> extends old h'"
  unfolding preserves_def by blast

lemma sign_h_frame:
  assumes "signer_object h this"
    and "sign_h P depth web this request date h = Inr (out, h')"
  shows "take (length h) h' = h"
proof -
  have "extends h h'"
    by (rule preservesD [OF preserves_sign_h [OF assms(1)] extends_refl assms(2)])
  then show ?thesis
    unfolding extends_def by (rule conjunct1)
qed

text \<open>On the example store the two embeddings of \<^verbatim>\<open>sign\<close> return the same headers.\<close>

lemma example_sign_h_returns:
  "(case sign_h example_platform 5 False (Ref 1) (Ref 4) (Some example_date) example_heap of
      Inl e \<Rightarrow> False
    | Inr (out, h') \<Rightarrow> True)"
  by code_simp

lemma example_store_agrees:
  "map_sum id (\<lambda>(out, h'). read_result h' out)
     (sign_h example_platform 5 False (Ref 1) (Ref 4) (Some example_date) example_heap) =
   sign example_platform example_signer unsigned_request (Some example_date)"
  by code_simp

lemma example_signer_object: "signer_object example_heap (Ref 1)"
  by (simp add: signer_object_def example_heap_def lookup_def)

text \<open>
  C10. A call of \<^verbatim>\<open>sign\<close> of either source file, on a signer whose configuration holds
  strings and functions, that returns leaves every object that was in the store before the
  call as it was: the request with its headers and parameters, the signer and its
  configuration. All it does is to add objects to the store.
\<close>

theorem sign_leaves_callers_objects:
  assumes "signer_object h this"
    and "sign_h P depth web this request date h = Inr (out, h')"
  shows "length h \<le> length h' \<and> (\<forall>a < length h. h' ! a = h ! a)"
proof -
  have t: "take (length h) h' = h"
    by (rule sign_h_frame [OF assms])
  then have "length h \<le> length h'"
    by (metis length_take min.cobounded1)
  moreover have "\<forall>a < length h. h' ! a = h ! a"
    by (metis t nth_take)
  ultimately show ?thesis by simp
qed

theorem sign_leaves_callers_objects_witness:
  "signer_object example_heap (Ref 1) \<and>
   (\<exists>out h'.
      sign_h example_platform 5 False (Ref 1) (Ref 4) (Some example_date) example_heap =
        Inr (out, h') \<and>
      h' ! 0 = example_heap ! 0 \<and> h' ! 1 = example_heap ! 1 \<and> h' ! 2 = example_heap ! 2 \<and>
      h' ! 3 = example_heap ! 3 \<and> h' ! 4 = example_heap ! 4)"
proof -
  from example_sign_h_returns obtain out h' where
    r: "sign_h example_platform 5 False (Ref 1) (Ref 4) (Some example_date) example_heap =
        Inr (out, h')"
    by (auto split: sum.splits)
  have l: "length example_heap = 5"
    by (simp add: example_heap_def)
  from sign_leaves_callers_objects [OF example_signer_object r]
  have "\<forall>a < 5. h' ! a = example_heap ! a"
    by (simp add: l)
  then have "h' ! 0 = example_heap ! 0 \<and> h' ! 1 = example_heap ! 1 \<and>
      h' ! 2 = example_heap ! 2 \<and> h' ! 3 = example_heap ! 3 \<and> h' ! 4 = example_heap ! 4"
    by simp
  with r example_signer_object show ?thesis by blast
qed

end
